theory Spec2Isabelle
  imports Main
begin

section \<open>Go runtime primitives used by the client\<close>

text \<open>
  Go's \<open>int\<close>, \<open>int64\<close> and \<open>time.Duration\<close> are 64-bit two's complement
  integers on the platforms the SDK targets. They are modelled as \<open>int\<close> with the
  wrap-around written out where the source computes a value that can leave the range.
\<close>

definition maxInt64 :: int where
  "maxInt64 = 9223372036854775807"

definition minInt64 :: int where
  "minInt64 = - 9223372036854775808"

definition wrap64 :: "int \<Rightarrow> int" where
  "wrap64 x = (x + 9223372036854775808) mod 18446744073709551616 - 9223372036854775808"

text \<open>Go's \<open>/\<close> and \<open>%\<close> on integers truncate towards zero. The caller checks the
  divisor first: division by zero is a run-time panic in Go.\<close>

definition go_quo :: "int \<Rightarrow> int \<Rightarrow> int" where
  "go_quo a b = wrap64 (sgn a * sgn b * (\<bar>a\<bar> div \<bar>b\<bar>))"

definition go_rem :: "int \<Rightarrow> int \<Rightarrow> int" where
  "go_rem a b = sgn a * (\<bar>a\<bar> mod \<bar>b\<bar>)"

text \<open>A \<open>time.Time\<close> is a point on the nanosecond time line; \<open>Time.Sub\<close> returns
  the difference as a \<open>Duration\<close>, saturated at the largest and smallest duration.\<close>

definition time_Sub :: "int \<Rightarrow> int \<Rightarrow> int" where
  "time_Sub t u =
     (let d = t - u in
      if d > maxInt64 then maxInt64 else if d < minInt64 then minInt64 else d)"

text \<open>How a call ends: it returns, it panics (a run-time panic unwinds the stack and
  runs the deferred calls), or the runtime aborts the process with a fatal error (which
  no \<open>recover\<close> can stop).\<close>

datatype 'a outcome = Returns 'a | Panics string | Fatal string

definition divide_by_zero :: string where
  "divide_by_zero = ''runtime error: integer divide by zero''"

definition unlock_of_unlocked :: string where
  "unlock_of_unlocked = ''sync: unlock of unlocked mutex''"

section \<open>pkg/client: the token bucket\<close>

text \<open>The struct \<open>RateLimiter\<close>. The mutex \<open>mu\<close> is its state: \<open>True\<close> when locked.\<close>

record RateLimiter =
  tokens :: int
  maxTokens :: int
  interval :: int
  lastRefill :: int
  mu :: bool

text \<open>\<open>NewRateLimiter(maxTokens, interval)\<close>; the third argument is the value of
  \<open>time.Now()\<close> read by the constructor.\<close>

definition NewRateLimiter :: "int \<Rightarrow> int \<Rightarrow> int \<Rightarrow> RateLimiter" where
  "NewRateLimiter maxTokens' interval' now =
     \<lparr>tokens = maxTokens', maxTokens = maxTokens', interval = interval',
      lastRefill = now, mu = False\<rparr>"

text \<open>The helper \<open>min\<close> of the package.\<close>

definition min_int :: "int \<Rightarrow> int \<Rightarrow> int" where
  "min_int a b = (if a < b then a else b)"

text \<open>\<open>sync.Mutex\<close>. One goroutine uses the limiter at a time in this model, so
  \<open>Lock\<close> never has to wait. \<open>Unlock\<close> of a mutex that is not locked is a fatal
  error of the Go runtime.\<close>

definition Lock :: "RateLimiter \<Rightarrow> RateLimiter" where
  "Lock rl = rl\<lparr>mu := True\<rparr>"

definition Unlock :: "RateLimiter \<Rightarrow> RateLimiter option" where
  "Unlock rl = (if mu rl then Some (rl\<lparr>mu := False\<rparr>) else None)"

text \<open>\<open>defer rl.mu.Unlock()\<close>: runs when the function returns or panics, with the
  result the function was about to give.\<close>

definition deferred_Unlock :: "'a outcome \<Rightarrow> RateLimiter \<Rightarrow> 'a outcome \<times> RateLimiter" where
  "deferred_Unlock res rl =
     (case Unlock rl of
        Some rl' \<Rightarrow> (res, rl')
      | None \<Rightarrow> (Fatal unlock_of_unlocked, rl))"

text \<open>The block "Refill tokens based on elapsed time", which \<open>Wait\<close> and
  \<open>TryAcquire\<close> both start with. \<open>None\<close> is the panic of the division when
  \<open>interval\<close> is zero.\<close>

definition refill :: "int \<Rightarrow> RateLimiter \<Rightarrow> RateLimiter option" where
  "refill now rl =
     (let elapsed = time_Sub now (lastRefill rl) in
      if elapsed \<ge> interval rl then
        (if interval rl = 0 then None
         else
           let periods = go_quo elapsed (interval rl) in
           Some (rl\<lparr>tokens := min_int (maxTokens rl) (wrap64 (tokens rl + periods)),
                    lastRefill := now\<rparr>))
      else Some rl)"

text \<open>\<open>TryAcquire()\<close>; \<open>now\<close> is the value of \<open>time.Now()\<close> it reads.\<close>

definition TryAcquire :: "int \<Rightarrow> RateLimiter \<Rightarrow> bool outcome \<times> RateLimiter" where
  "TryAcquire now rl0 =
     (let rl = Lock rl0 in
      case refill now rl of
        None \<Rightarrow> deferred_Unlock (Panics divide_by_zero) rl
      | Some rl1 \<Rightarrow>
          if tokens rl1 \<le> 0 then deferred_Unlock (Returns False) rl1
          else deferred_Unlock (Returns True) (rl1\<lparr>tokens := tokens rl1 - 1\<rparr>))"

text \<open>The context's error, and what ends the \<open>select\<close> of \<open>Wait\<close>: the context is
  done, or the timer fires (and \<open>time.Now()\<close> then reads the given time).\<close>

datatype ctx_error = Canceled | DeadlineExceeded

datatype wake = CtxDone ctx_error | TimerFired int

text \<open>The duration \<open>Wait\<close> sleeps for, computed from the limiter after the refill.\<close>

definition waitTime :: "int \<Rightarrow> RateLimiter \<Rightarrow> int" where
  "waitTime now rl = wrap64 (interval rl - go_rem (time_Sub now (lastRefill rl)) (interval rl))"

text \<open>\<open>Wait(ctx)\<close>. The result \<open>None\<close> is Go's \<open>nil\<close> error.\<close>

definition Wait :: "int \<Rightarrow> wake \<Rightarrow> RateLimiter \<Rightarrow> ctx_error option outcome \<times> RateLimiter" where
  "Wait now w rl0 =
     (let rl = Lock rl0 in
      case refill now rl of
        None \<Rightarrow> deferred_Unlock (Panics divide_by_zero) rl
      | Some rl1 \<Rightarrow>
          if tokens rl1 \<le> 0 then
            (if interval rl1 = 0 then deferred_Unlock (Panics divide_by_zero) rl1
             else
               case Unlock rl1 of
                 None \<Rightarrow> (Fatal unlock_of_unlocked, rl1)
               | Some rl2 \<Rightarrow>
                   (case w of
                      CtxDone e \<Rightarrow> deferred_Unlock (Returns (Some e)) rl2
                    | TimerFired now2 \<Rightarrow>
                        let rl3 = (Lock rl2)\<lparr>tokens := 1, lastRefill := now2\<rparr> in
                        deferred_Unlock (Returns None) (rl3\<lparr>tokens := tokens rl3 - 1\<rparr>)))
          else deferred_Unlock (Returns None) (rl1\<lparr>tokens := tokens rl1 - 1\<rparr>))"


text \<open>A sequence of calls on one limiter. A call that does not return (it panics or
  the process dies) ends the sequence: \<open>run\<close> gives the limiter after the calls when
  every one of them was a complete execution.\<close>

datatype call = CallTryAcquire int | CallWait int wake

fun step :: "call \<Rightarrow> RateLimiter \<Rightarrow> RateLimiter option" where
  "step (CallTryAcquire now) rl =
     (case TryAcquire now rl of (Returns b, rl') \<Rightarrow> Some rl' | _ \<Rightarrow> None)"
| "step (CallWait now w) rl =
     (case Wait now w rl of (Returns e, rl') \<Rightarrow> Some rl' | _ \<Rightarrow> None)"

fun run :: "call list \<Rightarrow> RateLimiter \<Rightarrow> RateLimiter option" where
  "run [] rl = Some rl"
| "run (c # cs) rl = (case step c rl of None \<Rightarrow> None | Some rl' \<Rightarrow> run cs rl')"

text \<open>The parameters for which the arithmetic of the refill stays inside the 64-bit
  range: a capacity that is not negative, a positive interval, and room for the largest
  number of periods a duration can hold.\<close>

definition params_ok :: "int \<Rightarrow> int \<Rightarrow> bool" where
  "params_ok N I = (0 \<le> N \<and> 0 < I \<and> N + maxInt64 div I \<le> maxInt64)"

section \<open>Standard-library functions on strings and bytes\<close>

text \<open>A Go \<open>string\<close> and a \<open>[]byte\<close> are sequences of bytes: \<open>string\<close> here, with
  \<open>length\<close> counting bytes as Go's \<open>len\<close> does.\<close>

subsection \<open>strconv.FormatInt in base 10\<close>

definition digits :: string where
  "digits = ''0123456789''"

definition digit_char :: "nat \<Rightarrow> char" where
  "digit_char d = digits ! d"

fun dec_nat :: "nat \<Rightarrow> string" where
  "dec_nat n = (if n < 10 then [digit_char n] else dec_nat (n div 10) @ [digit_char (n mod 10)])"

declare dec_nat.simps [simp del]

definition FormatInt :: "int \<Rightarrow> string" where
  "FormatInt i = (if i < 0 then CHR ''-'' # dec_nat (nat (- i)) else dec_nat (nat i))"

subsection \<open>strings.ToLower, strings.ToUpper, strings.HasSuffix\<close>

text \<open>The case mappings are modelled on ASCII, which is what the exchange's symbols are
  made of: a byte outside \<open>A\<close>..\<open>Z\<close> (or \<open>a\<close>..\<open>z\<close>) is left as it is.\<close>

definition lower_byte :: "char \<Rightarrow> char" where
  "lower_byte c = (let n = (of_char c :: nat) in if 65 \<le> n \<and> n \<le> 90 then char_of (n + 32) else c)"

definition upper_byte :: "char \<Rightarrow> char" where
  "upper_byte c = (let n = (of_char c :: nat) in if 97 \<le> n \<and> n \<le> 122 then char_of (n - 32) else c)"

definition ToLower :: "string \<Rightarrow> string" where
  "ToLower s = map lower_byte s"

definition ToUpper :: "string \<Rightarrow> string" where
  "ToUpper s = map upper_byte s"

definition HasSuffix :: "string \<Rightarrow> string \<Rightarrow> bool" where
  "HasSuffix s suffix =
     (length s \<ge> length suffix \<and> drop (length s - length suffix) s = suffix)"

subsection \<open>encoding/hex and encoding/base64 (StdEncoding)\<close>

definition hextable :: string where
  "hextable = ''0123456789abcdef''"

definition hex_EncodeToString :: "string \<Rightarrow> string" where
  "hex_EncodeToString src =
     concat (map (\<lambda>c. [hextable ! ((of_char c :: nat) div 16), hextable ! ((of_char c :: nat) mod 16)]) src)"

definition encodeStd :: string where
  "encodeStd = ''ABCDEFGHIJKLMNOPQRSTUVWXYZabcdefghijklmnopqrstuvwxyz0123456789+/''"

definition StdPadding :: char where
  "StdPadding = CHR ''=''"

definition enc :: "nat \<Rightarrow> char" where
  "enc i = encodeStd ! i"

text \<open>\<open>base64.StdEncoding.EncodeToString\<close>: three bytes become four characters of the
  alphabet; a last group of one or two bytes is padded with \<open>=\<close>.\<close>

fun base64_EncodeToString :: "string \<Rightarrow> string" where
  "base64_EncodeToString [] = []"
| "base64_EncodeToString [a] =
     (let x = (of_char a :: nat) in
      [enc (x div 4), enc ((x mod 4) * 16), StdPadding, StdPadding])"
| "base64_EncodeToString [a, b] =
     (let x = (of_char a :: nat); y = (of_char b :: nat) in
      [enc (x div 4), enc ((x mod 4) * 16 + y div 16), enc ((y mod 16) * 4), StdPadding])"
| "base64_EncodeToString (a # b # c # rest) =
     (let x = (of_char a :: nat); y = (of_char b :: nat); z = (of_char c :: nat) in
      enc (x div 4) # enc ((x mod 4) * 16 + y div 16) # enc ((y mod 16) * 4 + z div 64)
        # enc (z mod 64) # base64_EncodeToString rest)"




section \<open>pkg/errors\<close>

datatype ErrorCode =
    ErrUnknown | ErrInvalidInput | ErrTimeout | ErrRateLimit | ErrNetworkError
  | ErrInvalidResponse | ErrInvalidAPIKey | ErrInvalidSignature | ErrPermissionDenied
  | ErrAPIKeyExpired | ErrExchangeNotSupported | ErrExchangeUnavailable | ErrInvalidSymbol
  | ErrInsufficientBalance | ErrOrderNotFound | ErrInvalidOrderType | ErrAPIError
  | ErrJSONParsing | ErrDataParsingError | ErrDataFormat | ErrMissingField
  | ErrInvalidDataType

text \<open>A Go \<open>error\<close> value as the client meets it: the error of a context, an error
  of the HTTP library, an error of \<open>encoding/json\<close>, or the SDK's own \<open>SDKError\<close>
  with its fields \<open>Code\<close>, \<open>Message\<close>, \<open>Details\<close> and \<open>Cause\<close>.\<close>

datatype error =
    ContextError ctx_error
  | TransportError string
  | JSONError string
  | SDKError ErrorCode string string "error option"

definition New :: "ErrorCode \<Rightarrow> string \<Rightarrow> error" where
  "New code message = SDKError code message [] None"

text \<open>\<open>Newf\<close>: the caller passes the message that \<open>fmt.Sprintf\<close> has formatted.\<close>

definition Newf :: "ErrorCode \<Rightarrow> string \<Rightarrow> error" where
  "Newf code formatted = SDKError code formatted [] None"

definition Wrap :: "ErrorCode \<Rightarrow> string \<Rightarrow> error \<Rightarrow> error" where
  "Wrap code message cause = SDKError code message [] (Some cause)"

fun GetCode :: "error \<Rightarrow> ErrorCode" where
  "GetCode (SDKError code _ _ _) = code"
| "GetCode _ = ErrUnknown"

section \<open>pkg/client: the HTTP client\<close>

text \<open>\<open>APIType\<close> is a string type with two named constants; any other string can be
  converted to it.\<close>

datatype APIType = APITypePublic | APITypePrivate | APITypeOther string

text \<open>An event handed to a \<open>zerolog.Logger\<close>: its level and message (the structured
  fields are not modelled). A logger is modelled by the events it has been given.\<close>

datatype level = Debug | Info | Warn | Error

type_synonym log_event = "level \<times> string"

text \<open>The request handed to the HTTP library: method, URI, body (\<open>None\<close> when
  \<open>SetBody\<close> was not called), the header fields set with \<open>Header.Set\<close>, and the
  proxy dialled (\<open>None\<close> for a direct connection).\<close>

record http_request =
  http_method :: string
  uri :: string
  body :: "string option"
  header :: "string \<rightharpoonup> string"
  dial :: "string option"

text \<open>What \<open>DoTimeout\<close> gives back: an error, or a response with status and body.\<close>

datatype net_result = NetError string | Response int string

text \<open>The struct \<open>HTTPClient\<close>: the two limiters (\<open>None\<close> is the nil pointer), the
  default headers, the proxies and the logger. \<open>ReadTimeout\<close> stands for the
  \<open>fasthttp.Client\<close> (whose two timeouts are equal); \<open>sent\<close> records the requests
  handed to \<open>DoTimeout\<close> so far, oldest first: the network calls made.\<close>

record HTTPClient =
  ReadTimeout :: int
  publicLimiter :: "RateLimiter option"
  privateLimiter :: "RateLimiter option"
  headers :: "string \<rightharpoonup> string"
  proxies :: "string list"
  logger :: "log_event list"
  sent :: "http_request list"

definition NewHTTPClient :: "int \<Rightarrow> HTTPClient" where
  "NewHTTPClient timeout =
     \<lparr>ReadTimeout = timeout, publicLimiter = None, privateLimiter = None,
      headers = Map.empty, proxies = [], logger = [], sent = []\<rparr>"

text \<open>\<open>SetRateLimit\<close>; \<open>now\<close> is the clock value the constructor of the limiter reads.\<close>

definition SetRateLimit :: "HTTPClient \<Rightarrow> int \<Rightarrow> APIType \<Rightarrow> int \<Rightarrow> int \<Rightarrow> HTTPClient" where
  "SetRateLimit c now apiType requests interval' =
     (case apiType of
        APITypePublic \<Rightarrow> c\<lparr>publicLimiter := Some (NewRateLimiter requests interval' now)\<rparr>
      | APITypePrivate \<Rightarrow> c\<lparr>privateLimiter := Some (NewRateLimiter requests interval' now)\<rparr>
      | APITypeOther _ \<Rightarrow> c)"

text \<open>A \<open>range\<close> loop over a Go map that assigns each entry to another map. Go visits the
  keys of the map in an order it does not specify: \<open>ks\<close> is that order.\<close>

fun range_assign :: "('k \<rightharpoonup> 'v) \<Rightarrow> 'k list \<Rightarrow> ('k \<rightharpoonup> 'v) \<Rightarrow> ('k \<rightharpoonup> 'v)" where
  "range_assign src [] dst = dst"
| "range_assign src (k # ks) dst =
     (case src k of
        Some v \<Rightarrow> range_assign src ks (dst(k \<mapsto> v))
      | None \<Rightarrow> range_assign src ks dst)"

text \<open>\<open>SetHeaders(headers)\<close>, with the order \<open>ks\<close> in which the loop visits the keys
  of its argument.\<close>

definition SetHeaders :: "HTTPClient \<Rightarrow> (string \<rightharpoonup> string) \<Rightarrow> string list \<Rightarrow> HTTPClient" where
  "SetHeaders c hdrs ks = c\<lparr>headers := range_assign hdrs ks (headers c)\<rparr>"

text \<open>\<open>SetProxies(proxies)\<close>: a fresh slice of the same length, filled by \<open>copy\<close>.\<close>

definition SetProxies :: "HTTPClient \<Rightarrow> string list \<Rightarrow> HTTPClient" where
  "SetProxies c ps = c\<lparr>proxies := take (length ps) ps\<rparr>"

text \<open>What the world does during one call of an operation: the clock value \<open>Wait\<close>
  reads, how its \<open>select\<close> ends if it blocks, the number \<open>rand.Intn\<close> draws, the
  answer of the network to the request, and the value of \<open>time.Now().UnixNano()\<close> read
  for the nonce.\<close>

record call_env =
  clock :: int
  wakes :: wake
  rand :: nat
  network :: "http_request \<Rightarrow> net_result"
  unixNano :: int

definition emit :: "level \<Rightarrow> string \<Rightarrow> HTTPClient \<Rightarrow> HTTPClient" where
  "emit lvl msg c = c\<lparr>logger := logger c @ [(lvl, msg)]\<rparr>"

text \<open>The block "Apply rate limiting based on API type" of \<open>request\<close> and
  \<open>requestWithHeaders\<close>: the limiter chosen by the \<open>switch\<close>, and the limiter behind
  that pointer after \<open>Wait\<close> has changed it.\<close>

definition rateLimiter :: "HTTPClient \<Rightarrow> APIType \<Rightarrow> RateLimiter option" where
  "rateLimiter c apiType =
     (case apiType of
        APITypePublic \<Rightarrow> publicLimiter c
      | APITypePrivate \<Rightarrow> privateLimiter c
      | APITypeOther _ \<Rightarrow> None)"

definition store_limiter :: "HTTPClient \<Rightarrow> APIType \<Rightarrow> RateLimiter \<Rightarrow> HTTPClient" where
  "store_limiter c apiType rl =
     (case apiType of
        APITypePublic \<Rightarrow> c\<lparr>publicLimiter := Some rl\<rparr>
      | APITypePrivate \<Rightarrow> c\<lparr>privateLimiter := Some rl\<rparr>
      | APITypeOther _ \<Rightarrow> c)"

text \<open>The common end of \<open>request\<close> and \<open>requestWithHeaders\<close>, from "Select client"
  on: the proxy is chosen, the request sent, and the answer checked.\<close>

definition StatusOK :: int where
  "StatusOK = 200"

definition send :: "HTTPClient \<Rightarrow> call_env \<Rightarrow> http_request \<Rightarrow> (error + string) outcome \<times> HTTPClient" where
  "send c env req0 =
     (let req = (if length (proxies c) > 0
                 then req0\<lparr>dial := Some (proxies c ! (rand env mod length (proxies c)))\<rparr>
                 else req0);
          c1 = c\<lparr>sent := sent c @ [req]\<rparr>
      in case network env req of
           NetError e \<Rightarrow>
             (Returns (Inl (Wrap ErrNetworkError ''request failed'' (TransportError e))),
              emit Error ''Request failed'' c1)
         | Response status respBody \<Rightarrow>
             (let c2 = emit Debug ''Received HTTP response'' c1 in
              if status \<noteq> StatusOK then
                (Returns (Inl (Newf ErrNetworkError
                                 (''HTTP error: '' @ FormatInt status @ '' '' @ respBody))),
                 emit Error ''HTTP error response'' c2)
              else
                (Returns (Inr respBody), emit Debug ''Request completed successfully'' c2)))"

text \<open>\<open>requestWithHeaders\<close>: the default headers are set first, the custom headers
  after them. Each loop sets every entry of a map whose keys are distinct, so the result
  does not depend on the order of the visits: it is the map overridden (\<open>++\<close>).\<close>

definition requestWithHeaders ::
  "HTTPClient \<Rightarrow> call_env \<Rightarrow> string \<Rightarrow> string \<Rightarrow> string option \<Rightarrow> (string \<rightharpoonup> string)
     \<Rightarrow> APIType \<Rightarrow> (error + string) outcome \<times> HTTPClient" where
  "requestWithHeaders c env meth url body' hdrs apiType =
     (let c0 = emit Debug ''Sending HTTP request with custom headers'' c;
          req = \<lparr>http_method = meth, uri = url, body = body',
                 header = headers c0 ++ hdrs, dial = None\<rparr>
      in case rateLimiter c0 apiType of
           None \<Rightarrow> send c0 env req
         | Some rl \<Rightarrow>
             (case Wait (clock env) (wakes env) rl of
                (Returns None, rl') \<Rightarrow> send (store_limiter c0 apiType rl') env req
              | (Returns (Some err), rl') \<Rightarrow>
                  (Returns (Inl (Wrap ErrRateLimit ''rate limit error'' (ContextError err))),
                   emit Error ''Rate limit error'' (store_limiter c0 apiType rl'))
              | (Panics m, rl') \<Rightarrow> (Panics m, store_limiter c0 apiType rl')
              | (Fatal m, rl') \<Rightarrow> (Fatal m, store_limiter c0 apiType rl')))"

text \<open>\<open>request\<close>: with a body, the content type is set to JSON before the default
  headers, which may therefore replace it.\<close>

definition request ::
  "HTTPClient \<Rightarrow> call_env \<Rightarrow> string \<Rightarrow> string \<Rightarrow> string option \<Rightarrow> APIType
     \<Rightarrow> (error + string) outcome \<times> HTTPClient" where
  "request c env meth url body' apiType =
     (let c0 = emit Debug ''Sending HTTP request'' c;
          h0 = (if body' \<noteq> None then [''Content-Type'' \<mapsto> ''application/json'']
                else Map.empty);
          req = \<lparr>http_method = meth, uri = url, body = body',
                 header = h0 ++ headers c0, dial = None\<rparr>
      in case rateLimiter c0 apiType of
           None \<Rightarrow> send c0 env req
         | Some rl \<Rightarrow>
             (case Wait (clock env) (wakes env) rl of
                (Returns None, rl') \<Rightarrow> send (store_limiter c0 apiType rl') env req
              | (Returns (Some err), rl') \<Rightarrow>
                  (Returns (Inl (Wrap ErrRateLimit ''rate limit error'' (ContextError err))),
                   emit Error ''Rate limit error'' (store_limiter c0 apiType rl'))
              | (Panics m, rl') \<Rightarrow> (Panics m, store_limiter c0 apiType rl')
              | (Fatal m, rl') \<Rightarrow> (Fatal m, store_limiter c0 apiType rl')))"

definition RequestWithType ::
  "HTTPClient \<Rightarrow> call_env \<Rightarrow> string \<Rightarrow> string \<Rightarrow> string option \<Rightarrow> APIType
     \<Rightarrow> (error + string) outcome \<times> HTTPClient" where
  "RequestWithType c env meth url body' apiType = request c env meth url body' apiType"

definition GetWithType ::
  "HTTPClient \<Rightarrow> call_env \<Rightarrow> string \<Rightarrow> APIType \<Rightarrow> (error + string) outcome \<times> HTTPClient" where
  "GetWithType c env url apiType = RequestWithType c env ''GET'' url None apiType"

definition PostWithHeaders ::
  "HTTPClient \<Rightarrow> call_env \<Rightarrow> string \<Rightarrow> string option \<Rightarrow> (string \<rightharpoonup> string) \<Rightarrow> APIType
     \<Rightarrow> (error + string) outcome \<times> HTTPClient" where
  "PostWithHeaders c env url body' hdrs apiType =
     requestWithHeaders c env ''POST'' url body' hdrs apiType"

section \<open>pkg/exchanges/gemini\<close>

subsection \<open>Structs and the JSON library\<close>

text \<open>What \<open>encoding/json\<close> sees of a struct: its fields in declaration order, each with
  the name of its \<open>json\<close> tag, whether the tag says \<open>omitempty\<close>, and the value.\<close>

datatype json_value = JString string | JBool bool | JStrings "string list"

type_synonym json_field = "string \<times> bool \<times> json_value"

text \<open>The struct \<open>NewOrderRequest\<close>, which the caller of \<open>PlaceOrder\<close> owns. \<open>OrderSide\<close>
  and \<open>OrderType\<close> are string types.\<close>

record NewOrderRequest =
  Request :: string
  Nonce :: string
  ClientOrderID :: string
  Symbol :: string
  Amount :: string
  Price :: string
  Side :: string
  Type :: string
  Options :: "string list"
  Account :: string

definition NewOrderRequest_fields :: "NewOrderRequest \<Rightarrow> json_field list" where
  "NewOrderRequest_fields r =
     [(''request'', False, JString (Request r)),
      (''nonce'', False, JString (Nonce r)),
      (''client_order_id'', True, JString (ClientOrderID r)),
      (''symbol'', False, JString (Symbol r)),
      (''amount'', False, JString (Amount r)),
      (''price'', True, JString (Price r)),
      (''side'', False, JString (Side r)),
      (''type'', False, JString (Type r)),
      (''options'', True, JStrings (Options r)),
      (''account'', True, JString (Account r))]"

text \<open>The request structs that the operations build themselves, as the struct literal
  of the source with the tags of the declaration.\<close>

definition CancelOrderRequest :: "string \<Rightarrow> string \<Rightarrow> string \<Rightarrow> string \<Rightarrow> json_field list" where
  "CancelOrderRequest request' nonce orderID account =
     [(''request'', False, JString request'),
      (''nonce'', False, JString nonce),
      (''order_id'', False, JString orderID),
      (''account'', True, JString account)]"

definition GetActiveOrdersRequest :: "string \<Rightarrow> string \<Rightarrow> string \<Rightarrow> json_field list" where
  "GetActiveOrdersRequest request' nonce account =
     [(''request'', False, JString request'),
      (''nonce'', False, JString nonce),
      (''account'', True, JString account)]"

definition GetOrderStatusRequest ::
  "string \<Rightarrow> string \<Rightarrow> string \<Rightarrow> string \<Rightarrow> bool \<Rightarrow> string \<Rightarrow> json_field list" where
  "GetOrderStatusRequest request' nonce orderID clientOrderID includeTrades account =
     [(''request'', False, JString request'),
      (''nonce'', False, JString nonce),
      (''order_id'', False, JString orderID),
      (''client_order_id'', True, JString clientOrderID),
      (''include_trades'', True, JBool includeTrades),
      (''account'', True, JString account)]"

definition GetAvailableBalancesRequest :: "string \<Rightarrow> string \<Rightarrow> string \<Rightarrow> json_field list" where
  "GetAvailableBalancesRequest request' nonce account =
     [(''request'', False, JString request'),
      (''nonce'', False, JString nonce),
      (''account'', True, JString account)]"

definition GetNotionalBalancesRequest :: "string \<Rightarrow> string \<Rightarrow> string \<Rightarrow> json_field list" where
  "GetNotionalBalancesRequest request' nonce account =
     [(''request'', False, JString request'),
      (''nonce'', False, JString nonce),
      (''account'', True, JString account)]"

definition ListDepositAddressesRequest :: "string \<Rightarrow> string \<Rightarrow> string \<Rightarrow> json_field list" where
  "ListDepositAddressesRequest request' nonce account =
     [(''request'', False, JString request'),
      (''nonce'', False, JString nonce),
      (''account'', True, JString account)]"

record ErrorResponse =
  Result :: string
  Reason :: string
  Message :: string

definition errorStatus :: string where
  "errorStatus = ''error''"

text \<open>The library functions an operation calls: \<open>json.Marshal\<close> (the JSON bytes, or
  an error), \<open>json.Unmarshal\<close> into an \<open>ErrorResponse\<close> and into the type of the
  result (the value, or an error), and HMAC with SHA-384 (key, then message). The result
  types (\<open>Order\<close>, \<open>[]Balance\<close>, \<open>SymbolDetails\<close> and so on) are plain data that
  \<open>json.Unmarshal\<close> fills in and the operations hand on untouched: \<open>'a\<close>.\<close>

record 'a stdlib =
  Marshal :: "json_field list \<Rightarrow> string + string"
  UnmarshalError :: "string \<Rightarrow> string + ErrorResponse"
  Unmarshal :: "string \<Rightarrow> string + 'a"
  hmac_sha384 :: "string \<Rightarrow> string \<Rightarrow> string"

subsection \<open>The exchange\<close>

text \<open>The struct \<open>Gemini\<close>; \<open>glogger\<close> is its field \<open>logger\<close>.\<close>

record Gemini =
  client :: HTTPClient
  baseURL :: string
  apiKey :: string
  apiSecret :: string
  sandbox :: bool
  userAgent :: string
  glogger :: "log_event list"

definition baseURLProd :: string where
  "baseURLProd = ''https://api.gemini.com''"

definition baseURLSandbox :: string where
  "baseURLSandbox = ''https://api.sandbox.gemini.com''"

definition gemini_log :: "level \<Rightarrow> string \<Rightarrow> Gemini \<Rightarrow> Gemini" where
  "gemini_log lvl msg g = g\<lparr>glogger := glogger g @ [(lvl, msg)]\<rparr>"

text \<open>\<open>Gemini.SetRateLimit\<close> hands the limit to the client as it is.\<close>

definition Gemini_SetRateLimit :: "Gemini \<Rightarrow> int \<Rightarrow> APIType \<Rightarrow> int \<Rightarrow> int \<Rightarrow> Gemini" where
  "Gemini_SetRateLimit g now apiType requests interval' =
     gemini_log Info ''Rate limit updated''
       (g\<lparr>client := SetRateLimit (client g) now apiType requests interval'\<rparr>)"

definition SetAPICredentials :: "Gemini \<Rightarrow> string \<Rightarrow> string \<Rightarrow> Gemini" where
  "SetAPICredentials g key secret = g\<lparr>apiKey := key, apiSecret := secret\<rparr>"

definition SetSandbox :: "Gemini \<Rightarrow> bool \<Rightarrow> Gemini" where
  "SetSandbox g sb =
     (if sb then g\<lparr>sandbox := sb, baseURL := baseURLSandbox\<rparr>
      else g\<lparr>sandbox := sb, baseURL := baseURLProd\<rparr>)"

subsection \<open>Private operations (order.go and the fund API)\<close>

definition credentials_required :: string where
  "credentials_required = ''API key and secret are required for private endpoints''"

text \<open>The map literal "Set required headers for private API".\<close>

definition private_headers :: "string \<Rightarrow> string \<Rightarrow> string \<Rightarrow> (string \<rightharpoonup> string)" where
  "private_headers key payload signature =
     [''X-GEMINI-APIKEY'' \<mapsto> key,
      ''X-GEMINI-PAYLOAD'' \<mapsto> payload,
      ''X-GEMINI-SIGNATURE'' \<mapsto> signature,
      ''Content-Type'' \<mapsto> ''text/plain'',
      ''Content-Length'' \<mapsto> ''0'',
      ''Cache-Control'' \<mapsto> ''no-cache'']"

text \<open>The texts in which the seven private operations differ: the message of each of
  their three wrapped errors and of their two log events.\<close>

record op_texts =
  marshal_failed :: string
  post_failed :: string
  parse_failed :: string
  starting :: string
  succeeded :: string

text \<open>The seven private operations are the same sequence of statements from
  "Marshal request to JSON" to the final \<open>return\<close>, each with its own request struct,
  endpoint and texts: marshal, encode, sign, set the headers, post with an empty body,
  look for the error envelope, decode the result.\<close>

definition signed_post ::
  "'a stdlib \<Rightarrow> Gemini \<Rightarrow> call_env \<Rightarrow> string \<Rightarrow> json_field list \<Rightarrow> op_texts
     \<Rightarrow> (error + 'a) outcome \<times> Gemini" where
  "signed_post lib g env endpoint request' texts =
     (let url = baseURL g @ endpoint in
      case Marshal lib request' of
        Inl e \<Rightarrow>
          (Returns (Inl (Wrap ErrDataParsingError (marshal_failed texts) (JSONError e))), g)
      | Inr payloadBytes \<Rightarrow>
          (let payload = base64_EncodeToString payloadBytes;
               signature = hex_EncodeToString (hmac_sha384 lib (apiSecret g) payload);
               hdrs = private_headers (apiKey g) payload signature;
               g1 = gemini_log Debug (starting texts) g
           in case PostWithHeaders (client g1) env url None hdrs APITypePrivate of
                (Returns (Inl err), c') \<Rightarrow>
                  (Returns (Inl (Wrap ErrNetworkError (post_failed texts) err)),
                   g1\<lparr>client := c'\<rparr>)
              | (Returns (Inr response), c') \<Rightarrow>
                  (let g2 = g1\<lparr>client := c'\<rparr>;
                       isError = (case UnmarshalError lib response of
                                    Inl _ \<Rightarrow> None
                                  | Inr errorResp \<Rightarrow>
                                      if Result errorResp = errorStatus then Some errorResp
                                      else None)
                   in case isError of
                        Some errorResp \<Rightarrow>
                          (Returns (Inl (Newf ErrAPIError
                             (''Gemini API error: '' @ Reason errorResp @ '' - ''
                                @ Message errorResp))), g2)
                      | None \<Rightarrow>
                          (case Unmarshal lib response of
                             Inl e \<Rightarrow>
                               (Returns (Inl (Wrap ErrDataParsingError (parse_failed texts)
                                                (JSONError e))), g2)
                           | Inr v \<Rightarrow>
                               (Returns (Inr v), gemini_log Debug (succeeded texts) g2)))
              | (Panics m, c') \<Rightarrow> (Panics m, g1\<lparr>client := c'\<rparr>)
              | (Fatal m, c') \<Rightarrow> (Fatal m, g1\<lparr>client := c'\<rparr>)))"

text \<open>\<open>PlaceOrder\<close> writes the endpoint and the nonce into the caller's struct: the
  struct after the call is part of the result. The caller passes a struct (a nil pointer
  is not modelled).\<close>

definition PlaceOrder ::
  "'a stdlib \<Rightarrow> Gemini \<Rightarrow> call_env \<Rightarrow> NewOrderRequest
     \<Rightarrow> (error + 'a) outcome \<times> Gemini \<times> NewOrderRequest" where
  "PlaceOrder lib g env req =
     (if apiKey g = [] \<or> apiSecret g = [] then
        (Returns (Inl (New ErrInvalidInput credentials_required)), g, req)
      else
        let endpoint = ''/v1/order/new'';
            req' = req\<lparr>Request := endpoint, Nonce := FormatInt (unixNano env)\<rparr>
        in case signed_post lib g env endpoint (NewOrderRequest_fields req')
                  \<lparr>marshal_failed = ''failed to marshal order request'',
                   post_failed = ''failed to place order'',
                   parse_failed = ''failed to parse order response'',
                   starting = ''Placing order'',
                   succeeded = ''Successfully placed order''\<rparr> of
             (res, g') \<Rightarrow> (res, g', req'))"

definition CancelOrder ::
  "'a stdlib \<Rightarrow> Gemini \<Rightarrow> call_env \<Rightarrow> string \<Rightarrow> string \<Rightarrow> (error + 'a) outcome \<times> Gemini" where
  "CancelOrder lib g env orderID account =
     (if apiKey g = [] \<or> apiSecret g = [] then
        (Returns (Inl (New ErrInvalidInput credentials_required)), g)
      else
        let endpoint = ''/v1/order/cancel'';
            nonce = FormatInt (unixNano env)
        in signed_post lib g env endpoint (CancelOrderRequest endpoint nonce orderID account)
             \<lparr>marshal_failed = ''failed to marshal cancel request'',
              post_failed = ''failed to cancel order'',
              parse_failed = ''failed to parse cancel order response'',
              starting = ''Cancelling order'',
              succeeded = ''Successfully cancelled order''\<rparr>)"

definition GetActiveOrders ::
  "'a stdlib \<Rightarrow> Gemini \<Rightarrow> call_env \<Rightarrow> string \<Rightarrow> (error + 'a) outcome \<times> Gemini" where
  "GetActiveOrders lib g env account =
     (if apiKey g = [] \<or> apiSecret g = [] then
        (Returns (Inl (New ErrInvalidInput credentials_required)), g)
      else
        let endpoint = ''/v1/orders'';
            nonce = FormatInt (unixNano env)
        in signed_post lib g env endpoint (GetActiveOrdersRequest endpoint nonce account)
             \<lparr>marshal_failed = ''failed to marshal request payload'',
              post_failed = ''failed to fetch active orders'',
              parse_failed = ''failed to parse orders response'',
              starting = ''Fetching active orders'',
              succeeded = ''Successfully fetched active orders''\<rparr>)"

definition GetOrderStatus ::
  "'a stdlib \<Rightarrow> Gemini \<Rightarrow> call_env \<Rightarrow> string \<Rightarrow> string \<Rightarrow> bool \<Rightarrow> string
     \<Rightarrow> (error + 'a) outcome \<times> Gemini" where
  "GetOrderStatus lib g env orderID clientOrderID includeTrades account =
     (if apiKey g = [] \<or> apiSecret g = [] then
        (Returns (Inl (New ErrInvalidInput credentials_required)), g)
      else
        let endpoint = ''/v1/order/status'';
            nonce = FormatInt (unixNano env)
        in signed_post lib g env endpoint
             (GetOrderStatusRequest endpoint nonce orderID clientOrderID includeTrades account)
             \<lparr>marshal_failed = ''failed to marshal request payload'',
              post_failed = ''failed to fetch order status'',
              parse_failed = ''failed to parse order status response'',
              starting = ''Fetching order status'',
              succeeded = ''Successfully fetched order status''\<rparr>)"

definition GetAvailableBalances ::
  "'a stdlib \<Rightarrow> Gemini \<Rightarrow> call_env \<Rightarrow> string \<Rightarrow> (error + 'a) outcome \<times> Gemini" where
  "GetAvailableBalances lib g env account =
     (if apiKey g = [] \<or> apiSecret g = [] then
        (Returns (Inl (New ErrInvalidInput credentials_required)), g)
      else
        let endpoint = ''/v1/balances'';
            nonce = FormatInt (unixNano env)
        in signed_post lib g env endpoint (GetAvailableBalancesRequest endpoint nonce account)
             \<lparr>marshal_failed = ''failed to marshal request payload'',
              post_failed = ''failed to fetch available balances'',
              parse_failed = ''failed to parse balances response'',
              starting = ''Fetching available balances'',
              succeeded = ''Successfully fetched available balances''\<rparr>)"

definition GetNotionalBalances ::
  "'a stdlib \<Rightarrow> Gemini \<Rightarrow> call_env \<Rightarrow> string \<Rightarrow> string \<Rightarrow> (error + 'a) outcome \<times> Gemini" where
  "GetNotionalBalances lib g env currency account =
     (if apiKey g = [] \<or> apiSecret g = [] then
        (Returns (Inl (New ErrInvalidInput credentials_required)), g)
      else
        let endpoint = ''/v1/notionalbalances/'' @ currency;
            nonce = FormatInt (unixNano env)
        in signed_post lib g env endpoint (GetNotionalBalancesRequest endpoint nonce account)
             \<lparr>marshal_failed = ''failed to marshal request payload'',
              post_failed = ''failed to fetch notional balances'',
              parse_failed = ''failed to parse notional balances response'',
              starting = ''Fetching notional balances'',
              succeeded = ''Successfully fetched notional balances''\<rparr>)"

definition ListDepositAddresses ::
  "'a stdlib \<Rightarrow> Gemini \<Rightarrow> call_env \<Rightarrow> string \<Rightarrow> string \<Rightarrow> (error + 'a) outcome \<times> Gemini" where
  "ListDepositAddresses lib g env network' account =
     (if apiKey g = [] \<or> apiSecret g = [] then
        (Returns (Inl (New ErrInvalidInput credentials_required)), g)
      else
        let endpoint = ''/v1/addresses/'' @ network';
            nonce = FormatInt (unixNano env)
        in signed_post lib g env endpoint (ListDepositAddressesRequest endpoint nonce account)
             \<lparr>marshal_failed = ''failed to marshal request payload'',
              post_failed = ''failed to list deposit addresses'',
              parse_failed = ''failed to parse deposit addresses response'',
              starting = ''Listing deposit addresses'',
              succeeded = ''Successfully listed deposit addresses''\<rparr>)"

subsection \<open>Market data (market.go)\<close>

text \<open>\<open>ListSymbols\<close>; the library decodes the response into a list of symbols.\<close>

definition ListSymbols ::
  "(string list) stdlib \<Rightarrow> Gemini \<Rightarrow> call_env \<Rightarrow> (error + string list) outcome \<times> Gemini" where
  "ListSymbols lib g env =
     (let url = baseURL g @ ''/v1/symbols'';
          g1 = gemini_log Debug ''Fetching symbols'' g
      in case GetWithType (client g1) env url APITypePublic of
           (Returns (Inl err), c') \<Rightarrow>
             (Returns (Inl (Wrap ErrNetworkError ''failed to fetch symbols'' err)),
              g1\<lparr>client := c'\<rparr>)
         | (Returns (Inr response), c') \<Rightarrow>
             (case Unmarshal lib response of
                Inl e \<Rightarrow>
                  (Returns (Inl (Wrap ErrDataParsingError ''failed to parse symbols response''
                                   (JSONError e))), g1\<lparr>client := c'\<rparr>)
              | Inr symbols \<Rightarrow>
                  (Returns (Inr symbols),
                   gemini_log Debug ''Successfully fetched symbols'' (g1\<lparr>client := c'\<rparr>)))
         | (Panics m, c') \<Rightarrow> (Panics m, g1\<lparr>client := c'\<rparr>)
         | (Fatal m, c') \<Rightarrow> (Fatal m, g1\<lparr>client := c'\<rparr>))"

definition GetSymbolDetails ::
  "'d stdlib \<Rightarrow> Gemini \<Rightarrow> call_env \<Rightarrow> string \<Rightarrow> (error + 'd) outcome \<times> Gemini" where
  "GetSymbolDetails lib g env symbol =
     (let url = baseURL g @ ''/v1/symbols/details/'' @ symbol;
          g1 = gemini_log Debug ''Fetching symbol details'' g
      in case GetWithType (client g1) env url APITypePublic of
           (Returns (Inl err), c') \<Rightarrow>
             (Returns (Inl (Wrap ErrNetworkError ''failed to fetch symbol details'' err)),
              g1\<lparr>client := c'\<rparr>)
         | (Returns (Inr response), c') \<Rightarrow>
             (case Unmarshal lib response of
                Inl e \<Rightarrow>
                  (Returns (Inl (Wrap ErrDataParsingError
                                   ''failed to parse symbol details response''
                                   (JSONError e))), g1\<lparr>client := c'\<rparr>)
              | Inr details \<Rightarrow>
                  (Returns (Inr details),
                   gemini_log Debug ''Successfully fetched symbol details''
                     (g1\<lparr>client := c'\<rparr>)))
         | (Panics m, c') \<Rightarrow> (Panics m, g1\<lparr>client := c'\<rparr>)
         | (Fatal m, c') \<Rightarrow> (Fatal m, g1\<lparr>client := c'\<rparr>))"

text \<open>The loop of \<open>GetAllSymbolDetails\<close> over the symbols that are left, with the
  details gathered so far; the \<open>i\<close>-th call of \<open>GetSymbolDetails\<close> meets the world
  \<open>envs i\<close>.\<close>

fun details_loop ::
  "'d stdlib \<Rightarrow> (nat \<Rightarrow> call_env) \<Rightarrow> nat \<Rightarrow> string list \<Rightarrow> Gemini \<Rightarrow> 'd list
     \<Rightarrow> ('d list) outcome \<times> Gemini" where
  "details_loop lib envs i [] g allDetails = (Returns allDetails, g)"
| "details_loop lib envs i (symbol # rest) g allDetails =
     (case GetSymbolDetails lib g (envs i) symbol of
        (Returns (Inl err), g') \<Rightarrow>
          details_loop lib envs (Suc i) rest
            (gemini_log Warn ''Failed to fetch details for symbol'' g') allDetails
      | (Returns (Inr details), g') \<Rightarrow>
          details_loop lib envs (Suc i) rest g' (allDetails @ [details])
      | (Panics m, g') \<Rightarrow> (Panics m, g')
      | (Fatal m, g') \<Rightarrow> (Fatal m, g'))"

definition GetAllSymbolDetails ::
  "(string list) stdlib \<Rightarrow> 'd stdlib \<Rightarrow> Gemini \<Rightarrow> call_env \<Rightarrow> (nat \<Rightarrow> call_env)
     \<Rightarrow> (error + 'd list) outcome \<times> Gemini" where
  "GetAllSymbolDetails slib dlib g env envs =
     (case ListSymbols slib g env of
        (Returns (Inl err), g') \<Rightarrow>
          (Returns (Inl (Wrap ErrNetworkError ''failed to fetch symbols list'' err)), g')
      | (Returns (Inr symbols), g') \<Rightarrow>
          (case details_loop dlib envs 0 symbols g' [] of
             (Returns allDetails, g'') \<Rightarrow>
               (Returns (Inr allDetails),
                gemini_log Debug ''Successfully fetched all symbol details'' g'')
           | (Panics m, g'') \<Rightarrow> (Panics m, g'')
           | (Fatal m, g'') \<Rightarrow> (Fatal m, g''))
      | (Panics m, g') \<Rightarrow> (Panics m, g')
      | (Fatal m, g') \<Rightarrow> (Fatal m, g'))"

text \<open>The fetches one after the other, as the specification describes the result: the
  outcome of the fetch of each symbol, in the order of the list, each fetch in the state
  the one before has left (a fetch that does not return is the last); and the details of
  those that succeeded.\<close>

fun fetch_each ::
  "'d stdlib \<Rightarrow> (nat \<Rightarrow> call_env) \<Rightarrow> nat \<Rightarrow> string list \<Rightarrow> Gemini
     \<Rightarrow> ((error + 'd) outcome) list" where
  "fetch_each lib envs i [] g = []"
| "fetch_each lib envs i (symbol # rest) g =
     (case GetSymbolDetails lib g (envs i) symbol of
        (Returns (Inl err), g') \<Rightarrow>
          Returns (Inl err)
            # fetch_each lib envs (Suc i) rest
                (gemini_log Warn ''Failed to fetch details for symbol'' g')
      | (Returns (Inr details), g') \<Rightarrow>
          Returns (Inr details) # fetch_each lib envs (Suc i) rest g'
      | (Panics m, g') \<Rightarrow> [Panics m]
      | (Fatal m, g') \<Rightarrow> [Fatal m])"

fun succeeded_details :: "((error + 'd) outcome) list \<Rightarrow> 'd list" where
  "succeeded_details [] = []"
| "succeeded_details (Returns (Inr d) # rs) = d # succeeded_details rs"
| "succeeded_details (_ # rs) = succeeded_details rs"

subsection \<open>Base and quote currency of a symbol\<close>

definition quoteCurrencies :: "string list" where
  "quoteCurrencies = [''usd'', ''btc'', ''eth'', ''eur'', ''gbp'', ''sgd'', ''gusd'', ''dai'']"

text \<open>The loops of the two functions: the first quote currency of the list that the
  (lower-cased) symbol ends with decides the result.\<close>

fun base_loop :: "string \<Rightarrow> string list \<Rightarrow> string option" where
  "base_loop symbol [] = None"
| "base_loop symbol (quote # rest) =
     (if HasSuffix symbol quote
      then Some (ToUpper (take (length symbol - length quote) symbol))
      else base_loop symbol rest)"

fun quote_loop :: "string \<Rightarrow> string list \<Rightarrow> string option" where
  "quote_loop symbol [] = None"
| "quote_loop symbol (quote # rest) =
     (if HasSuffix symbol quote then Some (ToUpper quote) else quote_loop symbol rest)"

definition extractBaseCurrency :: "string \<Rightarrow> string" where
  "extractBaseCurrency symbol0 =
     (let symbol = ToLower symbol0 in
      case base_loop symbol quoteCurrencies of
        Some r \<Rightarrow> r
      | None \<Rightarrow> if length symbol \<ge> 6 then ToUpper (take 3 symbol) else ToUpper symbol)"

definition extractQuoteCurrency :: "string \<Rightarrow> string" where
  "extractQuoteCurrency symbol0 =
     (let symbol = ToLower symbol0 in
      case quote_loop symbol quoteCurrencies of
        Some r \<Rightarrow> r
      | None \<Rightarrow> if length symbol \<ge> 6 then ToUpper (drop (length symbol - 3) symbol)
                else ''USD'')"

text \<open>The heuristic as the specification words it: among the quote currencies that the
  symbol ends with, the longest.\<close>

definition longest_quote :: "string \<Rightarrow> string option" where
  "longest_quote symbol =
     (case filter (HasSuffix symbol) quoteCurrencies of
        [] \<Rightarrow> None
      | q # qs \<Rightarrow> Some (fold (\<lambda>a b. if length a > length b then a else b) qs q))"

definition spec_base :: "string \<Rightarrow> string" where
  "spec_base symbol0 =
     (let symbol = ToLower symbol0 in
      case longest_quote symbol of
        Some q \<Rightarrow> ToUpper (take (length symbol - length q) symbol)
      | None \<Rightarrow> if length symbol \<ge> 6 then ToUpper (take 3 symbol) else ToUpper symbol)"

definition spec_quote :: "string \<Rightarrow> string" where
  "spec_quote symbol0 =
     (let symbol = ToLower symbol0 in
      case longest_quote symbol of
        Some q \<Rightarrow> ToUpper q
      | None \<Rightarrow> if length symbol \<ge> 6 then ToUpper (drop (length symbol - 3) symbol)
                else ''USD'')"

section \<open>What the claims say about the requests on the wire\<close>

text \<open>The requests that were handed to the network between two states of the exchange.\<close>

definition new_requests :: "Gemini \<Rightarrow> Gemini \<Rightarrow> http_request list" where
  "new_requests g g' = drop (length (sent (client g))) (sent (client g'))"




text \<open>The limiter of the API type lets the call through: there is none, or its
  \<open>Wait\<close> returns without an error.\<close>

definition admits :: "HTTPClient \<Rightarrow> call_env \<Rightarrow> APIType \<Rightarrow> bool" where
  "admits c env apiType =
     (case rateLimiter c apiType of
        None \<Rightarrow> True
      | Some rl \<Rightarrow> fst (Wait (clock env) (wakes env) rl) = Returns None)"

section \<open>A small world for the examples\<close>

text \<open>Stand-ins for the library, used only where a theorem is shown at a concrete input:
  a JSON writer that is right for fields without characters to escape, and a keyed
  function in the place of HMAC-SHA384 (it is not a hash).\<close>

fun json_empty :: "json_value \<Rightarrow> bool" where
  "json_empty (JString s) = (s = [])"
| "json_empty (JBool b) = (\<not> b)"
| "json_empty (JStrings xs) = (xs = [])"

fun join :: "string \<Rightarrow> string list \<Rightarrow> string" where
  "join sep [] = []"
| "join sep [x] = x"
| "join sep (x # y # ys) = x @ sep @ join sep (y # ys)"

fun plain_value :: "json_value \<Rightarrow> string" where
  "plain_value (JString s) = ''\"'' @ s @ ''\"''"
| "plain_value (JBool b) = (if b then ''true'' else ''false'')"
| "plain_value (JStrings xs) = ''['' @ join '','' (map (\<lambda>s. ''\"'' @ s @ ''\"'') xs) @ '']''"

definition plain_json :: "json_field list \<Rightarrow> string" where
  "plain_json fs =
     ''{'' @ join '',''
              (map (\<lambda>(name, omitempty, v). ''\"'' @ name @ ''\":'' @ plain_value v)
                   (filter (\<lambda>(name, omitempty, v). \<not> (omitempty \<and> json_empty v)) fs))
         @ ''}''"

definition demo_lib :: "string stdlib" where
  "demo_lib =
     \<lparr>Marshal = (\<lambda>fs. Inr (plain_json fs)),
      UnmarshalError = (\<lambda>b. if b = ''{\"result\":\"error\",\"reason\":\"InvalidNonce\",\"message\":\"late\"}''
                             then Inr \<lparr>Result = ''error'', Reason = ''InvalidNonce'',
                                       Message = ''late''\<rparr>
                             else Inl ''cannot unmarshal''),
      Unmarshal = (\<lambda>b. Inr b),
      hmac_sha384 = (\<lambda>key msg. key @ take 8 msg)\<rparr>"

text \<open>An exchange with credentials, the default headers of \<open>NewGemini\<close>, and the
  default private limit of 600 requests a minute.\<close>

definition demo_gemini :: Gemini where
  "demo_gemini =
     \<lparr>client = SetRateLimit
                 ((NewHTTPClient 30000000000)
                    \<lparr>headers := [''User-Agent'' \<mapsto> ''CEX-SDK/1.0'',
                                 ''Content-Type'' \<mapsto> ''application/json'']\<rparr>)
                 0 APITypePrivate 600 60000000000,
      baseURL = baseURLProd, apiKey = ''account-key'', apiSecret = ''account-secret'',
      sandbox = False, userAgent = ''CEX-SDK/1.0'', glogger = []\<rparr>"

definition demo_env :: "string \<Rightarrow> call_env" where
  "demo_env answer =
     \<lparr>clock = 1000000, wakes = TimerFired 60000000000, rand = 0,
      network = (\<lambda>r. Response 200 answer), unixNano = 1700000000000000000\<rparr>"

definition demo_order :: NewOrderRequest where
  "demo_order =
     \<lparr>Request = [], Nonce = [], ClientOrderID = [], Symbol = ''btcusd'', Amount = ''1'',
      Price = ''30000.00'', Side = ''buy'', Type = ''exchange limit'', Options = [],
      Account = []\<rparr>"

text \<open>An exchange whose public limiter holds one token, a list of two symbols, and a
  caller whose deadline passes while the second request waits for a token.\<close>

definition demo_public :: Gemini where
  "demo_public =
     \<lparr>client = SetRateLimit (NewHTTPClient 30000000000) 0 APITypePublic 1 10000000000,
      baseURL = baseURLProd, apiKey = [], apiSecret = [],
      sandbox = False, userAgent = ''CEX-SDK/1.0'', glogger = []\<rparr>"

definition demo_symbols_lib :: "(string list) stdlib" where
  "demo_symbols_lib =
     \<lparr>Marshal = (\<lambda>fs. Inr (plain_json fs)),
      UnmarshalError = (\<lambda>b. Inl ''cannot unmarshal''),
      Unmarshal = (\<lambda>b. Inr [''btcusd'', ''ethusd'']),
      hmac_sha384 = (\<lambda>key msg. key @ take 8 msg)\<rparr>"

definition demo_deadline :: "nat \<Rightarrow> call_env" where
  "demo_deadline i =
     \<lparr>clock = 2000000, wakes = CtxDone DeadlineExceeded, rand = 0,
      network = (\<lambda>r. Response 200 ''{}''), unixNano = 1700000000000000000\<rparr>"

text \<open>The first request that went out between \<open>demo_gemini\<close> and a later state.\<close>

definition demo_sent :: "Gemini \<Rightarrow> http_request" where
  "demo_sent g' = hd (new_requests demo_gemini g')"

definition demo_error_body :: string where
  "demo_error_body = ''{\"result\":\"error\",\"reason\":\"InvalidNonce\",\"message\":\"late\"}''"

section \<open>The token bucket: arithmetic of the refill\<close>

lemma wrap64_id: "minInt64 \<le> x \<Longrightarrow> x \<le> maxInt64 \<Longrightarrow> wrap64 x = x"
  by (simp add: wrap64_def minInt64_def maxInt64_def)

lemma time_Sub_le: "time_Sub t u \<le> maxInt64"
  by (simp add: time_Sub_def Let_def minInt64_def maxInt64_def)


lemma go_quo_pos:
  assumes b: "0 < b" and a: "0 \<le> a" and m: "a \<le> maxInt64"
  shows "go_quo a b = a div b"
proof -
  have q0: "0 \<le> a div b" using a b by (simp add: pos_imp_zdiv_nonneg_iff)
  have "a div b \<le> a div 1" using a b by (intro zdiv_mono2) simp_all
  hence q1: "a div b \<le> maxInt64" using m by simp
  have "sgn a * sgn b * (\<bar>a\<bar> div \<bar>b\<bar>) = a div b"
    using a b by (cases "a = 0") (simp_all add: sgn_if)
  thus ?thesis using q0 q1 by (simp add: go_quo_def wrap64_id minInt64_def)
qed

lemma refill_early:
  "time_Sub now (lastRefill rl) < interval rl \<Longrightarrow> refill now rl = Some rl"
  by (simp add: refill_def Let_def)

lemma refill_due:
  assumes p: "params_ok (maxTokens rl) (interval rl)"
    and t: "0 \<le> tokens rl" "tokens rl \<le> maxTokens rl"
    and e: "interval rl \<le> time_Sub now (lastRefill rl)"
  shows "refill now rl =
           Some (rl\<lparr>tokens := min (maxTokens rl)
                              (tokens rl + time_Sub now (lastRefill rl) div interval rl),
                    lastRefill := now\<rparr>)"
proof -
  let ?e = "time_Sub now (lastRefill rl)" and ?I = "interval rl"
  have I: "0 < ?I" and bound: "maxTokens rl + maxInt64 div ?I \<le> maxInt64"
    using p by (simp_all add: params_ok_def)
  have e0: "0 \<le> ?e" using e I by linarith
  have q: "go_quo ?e ?I = ?e div ?I"
    using I e0 time_Sub_le by (rule go_quo_pos)
  have q0: "0 \<le> ?e div ?I" using e0 I by (simp add: pos_imp_zdiv_nonneg_iff)
  have "?e div ?I \<le> maxInt64 div ?I"
    using time_Sub_le I by (intro zdiv_mono1)
  hence "tokens rl + ?e div ?I \<le> maxInt64" using t bound by linarith
  moreover have "minInt64 \<le> tokens rl + ?e div ?I"
    using t q0 by (simp add: minInt64_def)
  ultimately have w: "wrap64 (tokens rl + ?e div ?I) = tokens rl + ?e div ?I"
    by (simp add: wrap64_id)
  show ?thesis using e I q w
    by (simp add: refill_def Let_def min_int_def min_def)
qed

lemma refill_inv:
  assumes p: "params_ok (maxTokens rl) (interval rl)"
    and t: "0 \<le> tokens rl" "tokens rl \<le> maxTokens rl"
  shows "\<exists>rl'. refill now rl = Some rl' \<and> 0 \<le> tokens rl' \<and> tokens rl' \<le> maxTokens rl'
            \<and> maxTokens rl' = maxTokens rl \<and> interval rl' = interval rl \<and> mu rl' = mu rl"
proof (cases "interval rl \<le> time_Sub now (lastRefill rl)")
  case True
  have I: "0 < interval rl" and N: "0 \<le> maxTokens rl"
    using p by (simp_all add: params_ok_def)
  have "0 \<le> time_Sub now (lastRefill rl) div interval rl"
    using True I by (simp add: pos_imp_zdiv_nonneg_iff)
  with refill_due[OF p t True] t N show ?thesis by simp
next
  case False
  then show ?thesis using t by (simp add: refill_early)
qed

text \<open>The time \<open>Wait\<close> sleeps when it finds no token: what is left of the running
  interval, at most one interval.\<close>

lemma waitTime_bounds:
  assumes "0 < interval rl" "interval rl \<le> maxInt64" "0 \<le> time_Sub now (lastRefill rl)"
  shows "0 < waitTime now rl \<and> waitTime now rl \<le> interval rl"
proof -
  let ?e = "time_Sub now (lastRefill rl)" and ?I = "interval rl"
  have r: "go_rem ?e ?I = ?e mod ?I"
    using assms by (cases "?e = 0") (simp_all add: go_rem_def sgn_if)
  have "0 \<le> ?e mod ?I" "?e mod ?I < ?I" using assms(1) by simp_all
  then have b: "0 < ?I - ?e mod ?I" "?I - ?e mod ?I \<le> ?I" by linarith+
  then have "wrap64 (?I - ?e mod ?I) = ?I - ?e mod ?I"
    using assms(2) by (intro wrap64_id) (simp_all add: minInt64_def)
  then show ?thesis using b r by (simp add: waitTime_def)
qed

section \<open>The token bucket: single calls\<close>


lemma TryAcquire_due:
  assumes p: "params_ok (maxTokens rl) (interval rl)"
    and t: "0 \<le> tokens rl" "tokens rl \<le> maxTokens rl"
    and e: "interval rl \<le> time_Sub now (lastRefill rl)"
  shows "TryAcquire now rl =
     (let n = min (maxTokens rl) (tokens rl + time_Sub now (lastRefill rl) div interval rl) in
      if n \<le> 0 then (Returns False, rl\<lparr>tokens := n, lastRefill := now, mu := False\<rparr>)
      else (Returns True, rl\<lparr>tokens := n - 1, lastRefill := now, mu := False\<rparr>))"
proof -
  let ?rl = "Lock rl"
  have "params_ok (maxTokens ?rl) (interval ?rl)" "0 \<le> tokens ?rl" "tokens ?rl \<le> maxTokens ?rl"
     "interval ?rl \<le> time_Sub now (lastRefill ?rl)"
    using p t e by (simp_all add: Lock_def)
  from refill_due[OF this] show ?thesis
    by (simp add: TryAcquire_def Let_def deferred_Unlock_def Unlock_def Lock_def)
qed

lemma TryAcquire_inv:
  assumes p: "params_ok (maxTokens rl) (interval rl)"
    and t: "0 \<le> tokens rl" "tokens rl \<le> maxTokens rl"
  shows "\<exists>b rl'. TryAcquire now rl = (Returns b, rl') \<and> 0 \<le> tokens rl'
            \<and> tokens rl' \<le> maxTokens rl' \<and> maxTokens rl' = maxTokens rl
            \<and> interval rl' = interval rl \<and> \<not> mu rl'"
proof -
  let ?rl = "Lock rl"
  have "params_ok (maxTokens ?rl) (interval ?rl)" "0 \<le> tokens ?rl" "tokens ?rl \<le> maxTokens ?rl"
    using p t by (simp_all add: Lock_def)
  from refill_inv[OF this, of now] obtain rl1 where
    r: "refill now ?rl = Some rl1" and i: "0 \<le> tokens rl1" "tokens rl1 \<le> maxTokens rl1"
      "maxTokens rl1 = maxTokens rl" "interval rl1 = interval rl" "mu rl1"
    by (auto simp: Lock_def)
  show ?thesis using r i
    by (auto simp: TryAcquire_def Let_def deferred_Unlock_def Unlock_def)
qed

lemma Wait_inv:
  assumes p: "params_ok (maxTokens rl) (interval rl)"
    and t: "0 \<le> tokens rl" "tokens rl \<le> maxTokens rl"
    and w: "Wait now w rl = (Returns e, rl')"
  shows "0 \<le> tokens rl' \<and> tokens rl' \<le> maxTokens rl'
            \<and> maxTokens rl' = maxTokens rl \<and> interval rl' = interval rl \<and> \<not> mu rl'"
proof -
  let ?rl = "Lock rl"
  have "params_ok (maxTokens ?rl) (interval ?rl)" "0 \<le> tokens ?rl" "tokens ?rl \<le> maxTokens ?rl"
    using p t by (simp_all add: Lock_def)
  from refill_inv[OF this, of now] obtain rl1 where
    r: "refill now ?rl = Some rl1" and i: "0 \<le> tokens rl1" "tokens rl1 \<le> maxTokens rl1"
      "maxTokens rl1 = maxTokens rl" "interval rl1 = interval rl" "mu rl1"
    by (auto simp: Lock_def)
  have N: "0 \<le> maxTokens rl" using p by (simp add: params_ok_def)
  show ?thesis using w r i N
    by (auto simp: Wait_def Let_def deferred_Unlock_def Unlock_def Lock_def
             split: if_splits wake.splits)
qed

text \<open>On a limiter whose mutex is free, \<open>Wait\<close> never returns an error: where the source
  says \<open>return ctx.Err()\<close>, the mutex has been unlocked by hand and the deferred
  \<open>Unlock\<close> finds it unlocked.\<close>

lemma Wait_never_returns_error:
  "\<not> mu rl \<Longrightarrow> fst (Wait now w rl) \<noteq> Returns (Some e)"
  by (auto simp: Wait_def Let_def deferred_Unlock_def Unlock_def Lock_def refill_def
           split: if_splits wake.splits option.splits)

lemma Wait_cancelled_while_blocked:
  assumes "refill now (Lock rl) = Some rl1" "tokens rl1 \<le> 0" "interval rl1 \<noteq> 0"
  shows "fst (Wait now (CtxDone e) rl) = Fatal unlock_of_unlocked"
  using assms
  by (auto simp: Wait_def Let_def deferred_Unlock_def Unlock_def Lock_def refill_def
           split: if_splits)

section \<open>The token bucket: sequences of calls\<close>

lemma step_inv:
  assumes p: "params_ok (maxTokens rl) (interval rl)"
    and t: "0 \<le> tokens rl" "tokens rl \<le> maxTokens rl"
    and s: "step c rl = Some rl'"
  shows "0 \<le> tokens rl' \<and> tokens rl' \<le> maxTokens rl'
            \<and> maxTokens rl' = maxTokens rl \<and> interval rl' = interval rl"
proof (cases c)
  case (CallTryAcquire now)
  from TryAcquire_inv[OF p t, of now] s CallTryAcquire show ?thesis by auto
next
  case (CallWait now w)
  from s CallWait obtain e where "Wait now w rl = (Returns e, rl')"
    by (auto split: prod.splits outcome.splits)
  from Wait_inv[OF p t this] show ?thesis by simp
qed

lemma run_inv:
  "params_ok (maxTokens rl) (interval rl) \<Longrightarrow> 0 \<le> tokens rl \<Longrightarrow> tokens rl \<le> maxTokens rl
   \<Longrightarrow> run cs rl = Some rl'
   \<Longrightarrow> 0 \<le> tokens rl' \<and> tokens rl' \<le> maxTokens rl' \<and> maxTokens rl' = maxTokens rl
       \<and> interval rl' = interval rl"
proof (induction cs arbitrary: rl)
  case Nil
  then show ?case by simp
next
  case (Cons c cs)
  from Cons.prems(4) obtain rl1 where s: "step c rl = Some rl1" and r: "run cs rl1 = Some rl'"
    by (auto split: option.splits)
  from step_inv[OF Cons.prems(1-3) s] have i: "0 \<le> tokens rl1" "tokens rl1 \<le> maxTokens rl1"
     "maxTokens rl1 = maxTokens rl" "interval rl1 = interval rl" by simp_all
  from Cons.IH[OF _ i(1,2) r] i Cons.prems(1) show ?case by simp
qed







text \<open>With an interval of zero the first call divides by zero.\<close>

lemma zero_interval_panics:
  "fst (TryAcquire 0 (NewRateLimiter 1 0 0)) = Panics ''runtime error: integer divide by zero''"
  by (simp add: TryAcquire_def NewRateLimiter_def Lock_def refill_def time_Sub_def Let_def
        maxInt64_def minInt64_def deferred_Unlock_def Unlock_def divide_by_zero_def)

text \<open>Beyond the range of \<open>params_ok\<close> the sum of the refill wraps around: a limiter
  with the largest capacity holds a negative number of tokens one nanosecond later.\<close>

lemma refill_overflow_example:
  "tokens (snd (TryAcquire 1 (NewRateLimiter maxInt64 1 0))) = minInt64"
  by (simp add: TryAcquire_def NewRateLimiter_def Lock_def refill_def time_Sub_def Let_def
        go_quo_def wrap64_def min_int_def maxInt64_def minInt64_def deferred_Unlock_def
        Unlock_def)

text \<open>No caller on the way to the constructor checks the capacity: \<open>Gemini.SetRateLimit\<close>
  installs a limiter with whatever number of requests it is given.\<close>

lemma SetRateLimit_takes_any_capacity:
  "publicLimiter (client (Gemini_SetRateLimit g now APITypePublic n d))
     = Some (NewRateLimiter n d now)"
  "privateLimiter (client (Gemini_SetRateLimit g now APITypePrivate n d))
     = Some (NewRateLimiter n d now)"
  by (simp_all add: Gemini_SetRateLimit_def SetRateLimit_def gemini_log_def)

section \<open>Claims about the token bucket\<close>

text \<open>
  Claim C1. If the caller's context is cancelled or its deadline expires while
  \<open>RateLimiter.Wait\<close> is blocking for a token (no token on entry), \<open>Wait\<close> returns the
  context's error as an ordinary error value, without panicking or crashing the process,
  and the transport surfaces it as a \<open>RateLimit\<close> error.

  The code does not do this. A limiter of capacity one is drained by one \<open>TryAcquire\<close>;
  half an interval later \<open>Wait\<close> blocks, the context ends (cancelled, or past its
  deadline), \<open>Wait\<close> has unlocked its mutex by hand before the \<open>select\<close>, and the
  deferred \<open>Unlock\<close> that runs at \<open>return ctx.Err()\<close> unlocks it a second time: the
  runtime stops the process with a fatal error. A request of the transport that waits on
  this limiter ends in the same way and never gives a \<open>RateLimit\<close> error.
\<close>

theorem C1_Wait_cancelled_is_fatal:
  "fst (TryAcquire 0 (NewRateLimiter 1 1000000000 0)) = Returns True \<and>
   tokens (snd (TryAcquire 0 (NewRateLimiter 1 1000000000 0))) = 0 \<and>
   fst (Wait 500000000 (CtxDone Canceled) (snd (TryAcquire 0 (NewRateLimiter 1 1000000000 0))))
     = Fatal ''sync: unlock of unlocked mutex'' \<and>
   fst (Wait 500000000 (CtxDone DeadlineExceeded)
          (snd (TryAcquire 0 (NewRateLimiter 1 1000000000 0))))
     = Fatal ''sync: unlock of unlocked mutex'' \<and>
   fst (requestWithHeaders
          ((NewHTTPClient 30000000000)
             \<lparr>privateLimiter := Some (snd (TryAcquire 0 (NewRateLimiter 1 1000000000 0)))\<rparr>)
          \<lparr>clock = 500000000, wakes = CtxDone Canceled, rand = 0,
           network = (\<lambda>r. Response 200 ''[]''), unixNano = 0\<rparr>
          ''POST'' ''https://api.gemini.com/v1/balances'' None Map.empty APITypePrivate)
     = Fatal ''sync: unlock of unlocked mutex''"
  by (simp add: TryAcquire_def Wait_def NewRateLimiter_def Lock_def refill_def time_Sub_def
        Let_def deferred_Unlock_def Unlock_def maxInt64_def minInt64_def unlock_of_unlocked_def
        requestWithHeaders_def NewHTTPClient_def rateLimiter_def emit_def)




text \<open>
  Claim C8. For every limiter the invariant \<open>0 \<le> tokens \<le> capacity\<close> holds at every
  observation point: the constructor establishes it and every complete execution of
  \<open>TryAcquire\<close> and of \<open>Wait\<close> preserves it, for every capacity with which a limiter can
  be constructed and every sequence of calls.

  The constructor takes any \<open>int\<close> and checks nothing, and neither does
  \<open>SetRateLimit\<close> of the client or of the exchange: with capacity \<open>-1\<close> the new
  limiter holds \<open>-1\<close> tokens.
\<close>

theorem C8_counterexample:
  "tokens (NewRateLimiter (- 1) 1000000000 0) = - 1 \<and>
   \<not> 0 \<le> tokens (NewRateLimiter (- 1) 1000000000 0)"
  by (simp add: NewRateLimiter_def)

text \<open>
  Claim C8, amended. For every limiter constructed with a capacity \<open>N \<ge> 0\<close> and a
  positive interval in the range of \<open>params_ok\<close> (the sum of the refill cannot leave the
  64-bit range), the constructor establishes \<open>tokens = N\<close>, and after every sequence of
  complete executions of \<open>TryAcquire\<close> and \<open>Wait\<close>, at whatever clock values and however
  each wait ends, \<open>0 \<le> tokens \<le> capacity\<close> holds and the capacity is still \<open>N\<close>.
\<close>

theorem C8_invariant:
  assumes "params_ok N I" and "run cs (NewRateLimiter N I t0) = Some rl"
  shows "tokens (NewRateLimiter N I t0) = N \<and> 0 \<le> tokens (NewRateLimiter N I t0)
         \<and> 0 \<le> tokens rl \<and> tokens rl \<le> maxTokens rl \<and> maxTokens rl = N"
proof -
  let ?rl = "NewRateLimiter N I t0"
  have "params_ok (maxTokens ?rl) (interval ?rl)" "0 \<le> tokens ?rl" "tokens ?rl \<le> maxTokens ?rl"
    using assms(1) by (simp_all add: NewRateLimiter_def params_ok_def)
  from run_inv[OF this assms(2)] assms(1) show ?thesis
    by (simp add: NewRateLimiter_def params_ok_def)
qed

theorem C8_invariant_witness:
  "params_ok 1 1000000000 \<and>
   run [CallTryAcquire 0, CallWait 0 (TimerFired 1000000000), CallTryAcquire 1000000000,
        CallTryAcquire 5000000000]
     (NewRateLimiter 1 1000000000 0)
     = Some \<lparr>tokens = 0, maxTokens = 1, interval = 1000000000, lastRefill = 5000000000,
             mu = False\<rparr> \<and>
   tokens (NewRateLimiter 1 1000000000 0) = 1 \<and>
   (0::int) \<le> tokens \<lparr>tokens = 0, maxTokens = 1, interval = 1000000000,
                      lastRefill = 5000000000, mu = False\<rparr>"
proof -
  have p: "params_ok 1 1000000000"
    by (simp add: params_ok_def maxInt64_def)
  have r: "run [CallTryAcquire 0, CallWait 0 (TimerFired 1000000000), CallTryAcquire 1000000000,
                CallTryAcquire 5000000000]
             (NewRateLimiter 1 1000000000 0)
           = Some \<lparr>tokens = 0, maxTokens = 1, interval = 1000000000, lastRefill = 5000000000,
                   mu = False\<rparr>"
    by code_simp
  from C8_invariant[OF p r] p r show ?thesis by simp
qed

section \<open>Base64: the payload can be read back\<close>
























section \<open>SetHeaders and SetProxies\<close>

text \<open>Whatever the order of the visits, the loop of \<open>SetHeaders\<close> gives the old map
  overridden by the new one.\<close>

lemma range_assign_apply:
  "range_assign src ks dst k = (if k \<in> set ks \<and> src k \<noteq> None then src k else dst k)"
proof (induction ks arbitrary: dst)
  case Nil
  then show ?case by simp
next
  case (Cons a ks)
  then show ?case by (cases "src a") auto
qed

lemma range_assign_map_add:
  assumes "set ks = dom src"
  shows "range_assign src ks dst = dst ++ src"
proof
  fix k
  show "range_assign src ks dst k = (dst ++ src) k"
    using assms by (auto simp: range_assign_apply map_add_def split: option.splits)
qed

lemma SetHeaders_keeps_keys:
  "dom (headers c) \<subseteq> dom (headers (SetHeaders c h ks))"
  by (auto simp: SetHeaders_def range_assign_apply)

text \<open>
  Claim C10. \<open>HTTPClient.SetHeaders(h)\<close> merges \<open>h\<close> into the default headers key by
  key: every key of \<open>h\<close> gets the value \<open>h\<close> gives it, every other key keeps its
  value, and no call removes a key that was set before; \<open>SetProxies\<close>, unlike it,
  replaces the whole list of proxies by (a copy of) its argument. The loop visits the keys
  of \<open>h\<close> in any order \<open>ks\<close>; neither function touches the other's field.
\<close>

theorem C10_SetHeaders_merges:
  assumes "set ks = dom h"
  shows "headers (SetHeaders c h ks) k = (case h k of Some v \<Rightarrow> Some v | None \<Rightarrow> headers c k)
       \<and> dom (headers c) \<subseteq> dom (headers (SetHeaders c h ks))
       \<and> proxies (SetHeaders c h ks) = proxies c
       \<and> proxies (SetProxies c ps) = ps
       \<and> headers (SetProxies c ps) = headers c"
proof -
  have e: "headers (SetHeaders c h ks) = headers c ++ h"
    using range_assign_map_add[OF assms] by (simp add: SetHeaders_def)
  show ?thesis unfolding e
    by (auto simp: map_add_def SetHeaders_def SetProxies_def split: option.splits)
qed

theorem C10_SetHeaders_merges_witness:
  "set [''X-Custom'', ''Content-Type'']
     = dom [''Content-Type'' \<mapsto> ''text/plain'', ''X-Custom'' \<mapsto> ''1''] \<and>
   headers (SetHeaders
      ((NewHTTPClient 30)\<lparr>headers := [''User-Agent'' \<mapsto> ''CEX-SDK/1.0'',
                                        ''Content-Type'' \<mapsto> ''application/json''],
                           proxies := [''10.0.0.1:8080'']\<rparr>)
      [''Content-Type'' \<mapsto> ''text/plain'', ''X-Custom'' \<mapsto> ''1'']
      [''X-Custom'', ''Content-Type'']) ''Content-Type'' = Some ''text/plain'' \<and>
   headers (SetHeaders
      ((NewHTTPClient 30)\<lparr>headers := [''User-Agent'' \<mapsto> ''CEX-SDK/1.0'',
                                        ''Content-Type'' \<mapsto> ''application/json''],
                           proxies := [''10.0.0.1:8080'']\<rparr>)
      [''Content-Type'' \<mapsto> ''text/plain'', ''X-Custom'' \<mapsto> ''1'']
      [''X-Custom'', ''Content-Type'']) ''User-Agent'' = Some ''CEX-SDK/1.0'' \<and>
   proxies (SetProxies
      ((NewHTTPClient 30)\<lparr>headers := [''User-Agent'' \<mapsto> ''CEX-SDK/1.0'',
                                        ''Content-Type'' \<mapsto> ''application/json''],
                           proxies := [''10.0.0.1:8080'']\<rparr>) []) = []"
proof -
  have d: "set [''X-Custom'', ''Content-Type'']
     = dom [''Content-Type'' \<mapsto> ''text/plain'', ''X-Custom'' \<mapsto> ''1'']"
    by auto
  let ?c = "(NewHTTPClient 30)\<lparr>headers := [''User-Agent'' \<mapsto> ''CEX-SDK/1.0'',
                                        ''Content-Type'' \<mapsto> ''application/json''],
                           proxies := [''10.0.0.1:8080'']\<rparr>"
  from C10_SetHeaders_merges[OF d, of ?c "''Content-Type''" "[]"]
       C10_SetHeaders_merges[OF d, of ?c "''User-Agent''" "[]"] d
  show ?thesis by (simp add: NewHTTPClient_def)
qed

section \<open>Base and quote currency\<close>

lemma HasSuffix_iff: "HasSuffix s q \<longleftrightarrow> (\<exists>p. s = p @ q)"
proof
  assume "HasSuffix s q"
  then have "s = take (length s - length q) s @ q"
    by (metis HasSuffix_def append_take_drop_id)
  then show "\<exists>p. s = p @ q" ..
next
  assume "\<exists>p. s = p @ q"
  then show "HasSuffix s q" by (auto simp: HasSuffix_def)
qed

lemma HasSuffix_same_length:
  "HasSuffix s a \<Longrightarrow> HasSuffix s b \<Longrightarrow> length a = length b \<Longrightarrow> a = b"
  by (auto simp: HasSuffix_iff append_eq_append_conv)

lemma gusd_is_usd: "HasSuffix s ''gusd'' \<Longrightarrow> HasSuffix s ''usd''"
proof -
  assume "HasSuffix s ''gusd''"
  then obtain p where "s = p @ ''gusd''" by (auto simp: HasSuffix_iff)
  then have "s = (p @ ''g'') @ ''usd''" by simp
  then show ?thesis unfolding HasSuffix_iff by blast
qed

text \<open>The entry gusd of the list is never the one that decides.\<close>

lemma quote_loop_not_gusd: "quote_loop s quoteCurrencies \<noteq> Some ''GUSD''"
proof -
  have u: "ToUpper ''gusd'' = ''GUSD''" "ToUpper ''usd'' \<noteq> ''GUSD''" "ToUpper ''btc'' \<noteq> ''GUSD''"
    "ToUpper ''eth'' \<noteq> ''GUSD''" "ToUpper ''eur'' \<noteq> ''GUSD''" "ToUpper ''gbp'' \<noteq> ''GUSD''"
    "ToUpper ''sgd'' \<noteq> ''GUSD''" "ToUpper ''dai'' \<noteq> ''GUSD''"
    by code_simp+
  show ?thesis
    using gusd_is_usd[of s] u by (auto simp: quoteCurrencies_def)
qed

lemma extractQuoteCurrency_never_GUSD: "extractQuoteCurrency symbol \<noteq> ''GUSD''"
proof -
  let ?s = "ToLower symbol"
  show ?thesis
  proof (cases "quote_loop ?s quoteCurrencies")
    case None
    have "length (ToUpper (drop (length ?s - 3) ?s)) = 3" if "6 \<le> length ?s"
      using that by (simp add: ToUpper_def)
    then have "ToUpper (drop (length ?s - 3) ?s) \<noteq> ''GUSD''" if "6 \<le> length ?s"
      using that by auto
    then show ?thesis using None by (auto simp: extractQuoteCurrency_def Let_def)
  next
    case (Some r)
    then show ?thesis using quote_loop_not_gusd[of ?s]
      by (auto simp: extractQuoteCurrency_def Let_def)
  qed
qed

lemma loops_agree_with_longest:
  assumes "\<not> HasSuffix s ''gusd''"
  shows "quote_loop s quoteCurrencies = map_option ToUpper (longest_quote s)"
    and "base_loop s quoteCurrencies
           = map_option (\<lambda>q. ToUpper (take (length s - length q) s)) (longest_quote s)"
  using assms 
    HasSuffix_same_length[of s "''usd''" "''btc''"] HasSuffix_same_length[of s "''usd''" "''eth''"]
    HasSuffix_same_length[of s "''usd''" "''eur''"] HasSuffix_same_length[of s "''usd''" "''gbp''"]
    HasSuffix_same_length[of s "''usd''" "''sgd''"] HasSuffix_same_length[of s "''usd''" "''dai''"]
    HasSuffix_same_length[of s "''btc''" "''eth''"] HasSuffix_same_length[of s "''btc''" "''eur''"]
    HasSuffix_same_length[of s "''btc''" "''gbp''"] HasSuffix_same_length[of s "''btc''" "''sgd''"]
    HasSuffix_same_length[of s "''btc''" "''dai''"] HasSuffix_same_length[of s "''eth''" "''eur''"]
    HasSuffix_same_length[of s "''eth''" "''gbp''"] HasSuffix_same_length[of s "''eth''" "''sgd''"]
    HasSuffix_same_length[of s "''eth''" "''dai''"] HasSuffix_same_length[of s "''eur''" "''gbp''"]
    HasSuffix_same_length[of s "''eur''" "''sgd''"] HasSuffix_same_length[of s "''eur''" "''dai''"]
    HasSuffix_same_length[of s "''gbp''" "''sgd''"] HasSuffix_same_length[of s "''gbp''" "''dai''"]
    HasSuffix_same_length[of s "''sgd''" "''dai''"]
  by (auto simp: quoteCurrencies_def longest_quote_def)

lemma extract_agrees_with_spec:
  assumes "\<not> HasSuffix (ToLower symbol) ''gusd''"
  shows "extractQuoteCurrency symbol = spec_quote symbol"
    and "extractBaseCurrency symbol = spec_base symbol"
  using loops_agree_with_longest[OF assms]
  by (auto simp: extractQuoteCurrency_def extractBaseCurrency_def spec_quote_def spec_base_def
        Let_def split: option.splits)

text \<open>The examples of the tests and of the specification, and a symbol of seven
  characters that ends with no quote currency.\<close>

lemma extract_examples:
  "extractBaseCurrency ''btcusd'' = ''BTC''" "extractQuoteCurrency ''btcusd'' = ''USD''"
  "extractBaseCurrency ''ethbtc'' = ''ETH''" "extractQuoteCurrency ''ethbtc'' = ''BTC''"
  "extractBaseCurrency ''BTCUSD'' = ''BTC''" "extractQuoteCurrency ''adaeth'' = ''ETH''"
  "extractBaseCurrency ''short'' = ''SHORT''" "extractQuoteCurrency ''short'' = ''USD''"
  "extractBaseCurrency ''linkxyz'' = ''LIN''" "extractQuoteCurrency ''linkxyz'' = ''XYZ''"
  by code_simp+


text \<open>
  Claim C7. \<open>extractBaseCurrency\<close> and \<open>extractQuoteCurrency\<close> take the longest quote
  currency of the list (usd, btc, eth, eur, gbp, sgd, gusd, dai) that the lower-cased symbol
  ends with; with none, a symbol of six characters or more is split into its first three
  and its last three characters, and a shorter one is the base with quote \<open>USD\<close>.

  The loops of the code return at the first entry of the list that matches, and \<open>usd\<close>
  stands before \<open>gusd\<close>: a symbol that ends with \<open>gusd\<close> ends with \<open>usd\<close>, so
  the entry \<open>gusd\<close> can never decide (\<open>extractQuoteCurrency_never_GUSD\<close>). For
  \<open>btcgusd\<close> the code answers base \<open>BTCG\<close> and quote \<open>USD\<close> where the longest match
  gives \<open>BTC\<close> and \<open>GUSD\<close>. On every symbol that does not end with \<open>gusd\<close> the code and
  the longest match agree (\<open>extract_agrees_with_spec\<close>).
\<close>

theorem C7_gusd:
  "extractBaseCurrency ''btcgusd'' = ''BTCG'' \<and> extractQuoteCurrency ''btcgusd'' = ''USD'' \<and>
   spec_base ''btcgusd'' = ''BTC'' \<and> spec_quote ''btcgusd'' = ''GUSD''"
  by code_simp

section \<open>The transport: what a request leaves on the wire\<close>


lemma send_frame:
  "headers (snd (send c env req)) = headers c \<and> proxies (snd (send c env req)) = proxies c
   \<and> publicLimiter (snd (send c env req)) = publicLimiter c
   \<and> privateLimiter (snd (send c env req)) = privateLimiter c"
  by (auto simp: send_def Let_def emit_def split: net_result.splits)

lemma send_returns: "\<exists>x. fst (send c env req) = Returns x"
  by (auto simp: send_def Let_def split: net_result.splits)

lemma send_ok:
  "network env (if length (proxies c) > 0
                 then req\<lparr>dial := Some (proxies c ! (rand env mod length (proxies c)))\<rparr>
                 else req) = Response 200 b
   \<Longrightarrow> fst (send c env req) = Returns (Inr b)"
  by (simp add: send_def Let_def StatusOK_def)

lemma store_limiter_frame [simp]:
  "sent (store_limiter c t rl) = sent c" "headers (store_limiter c t rl) = headers c"
  "proxies (store_limiter c t rl) = proxies c" "logger (store_limiter c t rl) = logger c"
  by (simp_all add: store_limiter_def split: APIType.splits)

lemma emit_frame [simp]:
  "sent (emit l m c) = sent c" "headers (emit l m c) = headers c"
  "proxies (emit l m c) = proxies c" "publicLimiter (emit l m c) = publicLimiter c"
  "privateLimiter (emit l m c) = privateLimiter c" "rateLimiter (emit l m c) t = rateLimiter c t"
  by (simp_all add: emit_def rateLimiter_def split: APIType.splits)


lemma requestWithHeaders_ok:
  assumes "admits c env t" "\<And>r. network env r = Response 200 b"
  shows "fst (requestWithHeaders c env m url bd hdrs t) = Returns (Inr b)"
proof -
  let ?c0 = "emit Debug ''Sending HTTP request with custom headers'' c"
  show ?thesis
  proof (cases "rateLimiter c t")
    case None
    then show ?thesis using assms(2)
      by (simp add: requestWithHeaders_def Let_def send_ok)
  next
    case (Some rl)
    with assms(1) have "fst (Wait (clock env) (wakes env) rl) = Returns None"
      by (simp add: admits_def)
    then obtain rl' where "Wait (clock env) (wakes env) rl = (Returns None, rl')"
      by (cases "Wait (clock env) (wakes env) rl") auto
    then show ?thesis using Some assms(2)
      by (simp add: requestWithHeaders_def Let_def send_ok)
  qed
qed

lemma gemini_log_client [simp]: "client (gemini_log l m g) = client g"
  "apiKey (gemini_log l m g) = apiKey g" "apiSecret (gemini_log l m g) = apiSecret g"
  "baseURL (gemini_log l m g) = baseURL g"
  by (simp_all add: gemini_log_def)

lemma new_requests_same [simp]: "new_requests g g = []"
  by (simp add: new_requests_def)



lemma signed_post_error_envelope:
  assumes "admits (client g) env APITypePrivate" "\<And>r. network env r = Response 200 b"
    and "Marshal lib fs = Inr json"
    and "UnmarshalError lib b = Inr er" "Result er = errorStatus"
  shows "fst (signed_post lib g env endpoint fs texts)
         = Returns (Inl (Newf ErrAPIError
                           (''Gemini API error: '' @ Reason er @ '' - '' @ Message er)))"
proof -
  let ?payload = "base64_EncodeToString json"
  let ?h = "private_headers (apiKey g) ?payload
              (hex_EncodeToString (hmac_sha384 lib (apiSecret g) ?payload))"
  have "fst (requestWithHeaders (client g) env ''POST'' (baseURL g @ endpoint) None ?h
               APITypePrivate) = Returns (Inr b)"
    using assms(1,2) by (rule requestWithHeaders_ok)
  then obtain c' where "requestWithHeaders (client g) env ''POST'' (baseURL g @ endpoint) None ?h
               APITypePrivate = (Returns (Inr b), c')"
    by (cases "requestWithHeaders (client g) env ''POST'' (baseURL g @ endpoint) None ?h
               APITypePrivate") auto
  then show ?thesis using assms(3-5)
    by (simp add: signed_post_def Let_def PostWithHeaders_def)
qed


lemma PlaceOrder_unfold:
  "PlaceOrder lib g env req =
     (if apiKey g = [] \<or> apiSecret g = [] then
        (Returns (Inl (New ErrInvalidInput credentials_required)), g, req)
      else
        (fst (signed_post lib g env ''/v1/order/new''
               (NewOrderRequest_fields
                  (req\<lparr>Request := ''/v1/order/new'', Nonce := FormatInt (unixNano env)\<rparr>))
               \<lparr>marshal_failed = ''failed to marshal order request'',
                post_failed = ''failed to place order'',
                parse_failed = ''failed to parse order response'',
                starting = ''Placing order'',
                succeeded = ''Successfully placed order''\<rparr>),
         snd (signed_post lib g env ''/v1/order/new''
               (NewOrderRequest_fields
                  (req\<lparr>Request := ''/v1/order/new'', Nonce := FormatInt (unixNano env)\<rparr>))
               \<lparr>marshal_failed = ''failed to marshal order request'',
                post_failed = ''failed to place order'',
                parse_failed = ''failed to parse order response'',
                starting = ''Placing order'',
                succeeded = ''Successfully placed order''\<rparr>),
         req\<lparr>Request := ''/v1/order/new'', Nonce := FormatInt (unixNano env)\<rparr>))"
  by (simp add: PlaceOrder_def Let_def split: prod.splits)





section \<open>The example world\<close>

lemma demo_admits: "admits (client demo_gemini) (demo_env a) APITypePrivate"
  by (simp add: admits_def demo_gemini_def demo_env_def SetRateLimit_def NewHTTPClient_def
        rateLimiter_def NewRateLimiter_def Wait_def Lock_def refill_def time_Sub_def Let_def
        maxInt64_def minInt64_def deferred_Unlock_def Unlock_def)

lemma demo_creds: "apiKey demo_gemini \<noteq> []" "apiSecret demo_gemini \<noteq> []"
  by (simp_all add: demo_gemini_def)

lemma demo_marshal: "\<not> isl (Marshal demo_lib fs)"
  by (simp add: demo_lib_def)


section \<open>Claims about the private operations\<close>









text \<open>
  Claim C5. For every private operation, if the API key or the API secret of the client
  is the empty string, the call returns an \<open>InvalidInput\<close> error at once and makes no
  network call (no token is taken from a limiter, nothing is signed, nothing is sent):
  the state of the client is unchanged, and so is the order struct of the caller.
\<close>

theorem C5_guard:
  assumes "apiKey g = [] \<or> apiSecret g = []"
  shows "PlaceOrder lib g env req
           = (Returns (Inl (SDKError ErrInvalidInput credentials_required [] None)), g, req)
       \<and> CancelOrder lib g env orderID account
           = (Returns (Inl (SDKError ErrInvalidInput credentials_required [] None)), g)
       \<and> GetOrderStatus lib g env orderID clientOrderID includeTrades account
           = (Returns (Inl (SDKError ErrInvalidInput credentials_required [] None)), g)
       \<and> GetActiveOrders lib g env account
           = (Returns (Inl (SDKError ErrInvalidInput credentials_required [] None)), g)
       \<and> GetAvailableBalances lib g env account
           = (Returns (Inl (SDKError ErrInvalidInput credentials_required [] None)), g)
       \<and> GetNotionalBalances lib g env currency account
           = (Returns (Inl (SDKError ErrInvalidInput credentials_required [] None)), g)
       \<and> ListDepositAddresses lib g env network' account
           = (Returns (Inl (SDKError ErrInvalidInput credentials_required [] None)), g)"
  using assms
  by (simp add: PlaceOrder_def CancelOrder_def GetOrderStatus_def GetActiveOrders_def
        GetAvailableBalances_def GetNotionalBalances_def ListDepositAddresses_def New_def)


text \<open>Claim C5 at an exchange without a secret, and at one without a key.\<close>

theorem C5_guard_witness:
  "(apiKey (demo_gemini\<lparr>apiSecret := []\<rparr>) = [] \<or> apiSecret (demo_gemini\<lparr>apiSecret := []\<rparr>) = [])
   \<and> PlaceOrder demo_lib (demo_gemini\<lparr>apiSecret := []\<rparr>) (demo_env ''[]'') demo_order
       = (Returns (Inl (SDKError ErrInvalidInput credentials_required [] None)),
          demo_gemini\<lparr>apiSecret := []\<rparr>, demo_order)
   \<and> GetAvailableBalances demo_lib (demo_gemini\<lparr>apiSecret := []\<rparr>) (demo_env ''[]'') []
       = (Returns (Inl (SDKError ErrInvalidInput credentials_required [] None)),
          demo_gemini\<lparr>apiSecret := []\<rparr>)
   \<and> ListDepositAddresses demo_lib (SetAPICredentials demo_gemini [] ''s'') (demo_env ''[]'')
         ''bitcoin'' []
       = (Returns (Inl (SDKError ErrInvalidInput credentials_required [] None)),
          SetAPICredentials demo_gemini [] ''s'')
   \<and> GetCode (SDKError ErrInvalidInput credentials_required [] None) = ErrInvalidInput
   \<and> new_requests (demo_gemini\<lparr>apiSecret := []\<rparr>)
        (snd (GetAvailableBalances demo_lib (demo_gemini\<lparr>apiSecret := []\<rparr>)
                (demo_env ''[]'') [])) = []"
proof -
  have a: "apiKey (demo_gemini\<lparr>apiSecret := []\<rparr>) = [] \<or> apiSecret (demo_gemini\<lparr>apiSecret := []\<rparr>) = []"
    by simp
  have b: "apiKey (SetAPICredentials demo_gemini [] ''s'') = []
           \<or> apiSecret (SetAPICredentials demo_gemini [] ''s'') = []"
    by (simp add: SetAPICredentials_def)
  from C5_guard[OF a, where lib = demo_lib and env = "demo_env ''[]''" and req = demo_order
         and account = "[]"]
       C5_guard[OF b, where lib = demo_lib and env = "demo_env ''[]''" and account = "[]"
         and network' = "''bitcoin''"]
  show ?thesis using a by simp
qed


text \<open>
  Claim C6. For every private operation, given an HTTP 200 response whose body parses as
  an object with \<open>result\<close>, \<open>reason\<close> and \<open>message\<close> and \<open>result = "error"\<close>, the
  operation returns an \<open>APIError\<close> that holds the reason and the message, and never
  decodes the body as the type of its result, although the transport has already checked
  the status 200.

  The credentials are set, the private limiter lets the call through, \<open>json.Marshal\<close>
  gives the payload, and the network answers 200 with the body \<open>b\<close>, which
  \<open>json.Unmarshal\<close> reads as the envelope \<open>er\<close>. The result is the same for every
  decoder \<open>u\<close> of the result type.
\<close>

theorem C6_error_envelope:
  assumes "apiKey g \<noteq> []" "apiSecret g \<noteq> []"
    and "admits (client g) env APITypePrivate"
    and "\<And>r. network env r = Response 200 b"
    and "\<And>fs. \<not> isl (Marshal lib fs)"
    and "UnmarshalError lib b = Inr er" "Result er = ''error''"
  shows "fst (PlaceOrder (lib\<lparr>Unmarshal := u\<rparr>) g env req)
           = Returns (Inl (SDKError ErrAPIError
                (''Gemini API error: '' @ Reason er @ '' - '' @ Message er) [] None))
       \<and> fst (CancelOrder (lib\<lparr>Unmarshal := u\<rparr>) g env orderID account)
           = Returns (Inl (SDKError ErrAPIError
                (''Gemini API error: '' @ Reason er @ '' - '' @ Message er) [] None))
       \<and> fst (GetOrderStatus (lib\<lparr>Unmarshal := u\<rparr>) g env orderID clientOrderID includeTrades
                account)
           = Returns (Inl (SDKError ErrAPIError
                (''Gemini API error: '' @ Reason er @ '' - '' @ Message er) [] None))
       \<and> fst (GetActiveOrders (lib\<lparr>Unmarshal := u\<rparr>) g env account)
           = Returns (Inl (SDKError ErrAPIError
                (''Gemini API error: '' @ Reason er @ '' - '' @ Message er) [] None))
       \<and> fst (GetAvailableBalances (lib\<lparr>Unmarshal := u\<rparr>) g env account)
           = Returns (Inl (SDKError ErrAPIError
                (''Gemini API error: '' @ Reason er @ '' - '' @ Message er) [] None))
       \<and> fst (GetNotionalBalances (lib\<lparr>Unmarshal := u\<rparr>) g env currency account)
           = Returns (Inl (SDKError ErrAPIError
                (''Gemini API error: '' @ Reason er @ '' - '' @ Message er) [] None))
       \<and> fst (ListDepositAddresses (lib\<lparr>Unmarshal := u\<rparr>) g env network' account)
           = Returns (Inl (SDKError ErrAPIError
                (''Gemini API error: '' @ Reason er @ '' - '' @ Message er) [] None))"
proof -
  let ?l = "lib\<lparr>Unmarshal := u\<rparr>"
  have m: "\<exists>json. Marshal ?l fs = Inr json" for fs
    using assms(5)[of fs] by (cases "Marshal lib fs") auto
  have e: "UnmarshalError ?l b = Inr er" "Result er = errorStatus"
    using assms(6,7) by (simp_all add: errorStatus_def)
  have sp: "fst (signed_post ?l g env endpoint fs texts)
         = Returns (Inl (SDKError ErrAPIError
                (''Gemini API error: '' @ Reason er @ '' - '' @ Message er) [] None))"
    for endpoint fs texts
  proof -
    from m[of fs] obtain json where "Marshal ?l fs = Inr json" ..
    from signed_post_error_envelope[OF assms(3,4) this e]
    show ?thesis by (simp add: Newf_def)
  qed
  show ?thesis using assms(1,2)
    by (simp add: PlaceOrder_unfold CancelOrder_def GetOrderStatus_def GetActiveOrders_def
        GetAvailableBalances_def GetNotionalBalances_def ListDepositAddresses_def Let_def sp)
qed


text \<open>Claim C6 at the example world, with a decoder that would accept any body.\<close>

theorem C6_error_envelope_witness:
  "apiKey demo_gemini \<noteq> [] \<and> apiSecret demo_gemini \<noteq> []
   \<and> admits (client demo_gemini) (demo_env demo_error_body) APITypePrivate
   \<and> network (demo_env demo_error_body) (demo_sent demo_gemini) = Response 200 demo_error_body
   \<and> UnmarshalError demo_lib demo_error_body
       = Inr \<lparr>Result = ''error'', Reason = ''InvalidNonce'', Message = ''late''\<rparr>
   \<and> fst (PlaceOrder (demo_lib\<lparr>Unmarshal := (\<lambda>b. Inr ''decoded'')\<rparr>) demo_gemini
             (demo_env demo_error_body) demo_order)
       = Returns (Inl (SDKError ErrAPIError ''Gemini API error: InvalidNonce - late'' [] None))
   \<and> fst (GetAvailableBalances (demo_lib\<lparr>Unmarshal := (\<lambda>b. Inr ''decoded'')\<rparr>) demo_gemini
             (demo_env demo_error_body) [])
       = Returns (Inl (SDKError ErrAPIError ''Gemini API error: InvalidNonce - late'' [] None))
   \<and> fst (ListDepositAddresses (demo_lib\<lparr>Unmarshal := (\<lambda>b. Inr ''decoded'')\<rparr>) demo_gemini
             (demo_env demo_error_body) ''bitcoin'' [])
       = Returns (Inl (SDKError ErrAPIError ''Gemini API error: InvalidNonce - late'' [] None))"
proof -
  have n: "\<And>r. network (demo_env demo_error_body) r = Response 200 demo_error_body"
    by (simp add: demo_env_def)
  have u: "UnmarshalError demo_lib demo_error_body
       = Inr \<lparr>Result = ''error'', Reason = ''InvalidNonce'', Message = ''late''\<rparr>"
    by (simp add: demo_lib_def demo_error_body_def)
  have r: "Result \<lparr>Result = ''error'', Reason = ''InvalidNonce'', Message = ''late''\<rparr> = ''error''"
    by simp
  from C6_error_envelope[OF demo_creds demo_admits n demo_marshal u r,
         where u = "\<lambda>b. Inr ''decoded''" and req = demo_order and account = "[]"
           and network' = "''bitcoin''"]
  show ?thesis using demo_creds demo_admits n u by simp
qed

section \<open>GetAllSymbolDetails\<close>

text \<open>When no fetch stops the process, the loop returns the details of the fetches that
  succeeded, in the order of the symbols, whatever errors the others returned; and the
  call returns an error only when \<open>ListSymbols\<close> did.\<close>

lemma details_loop_eq:
  "\<forall>r\<in>set (fetch_each lib envs i symbols g). \<exists>x. r = Returns x \<Longrightarrow>
   fst (details_loop lib envs i symbols g acc)
     = Returns (acc @ succeeded_details (fetch_each lib envs i symbols g))"
proof (induction symbols arbitrary: i g acc)
  case Nil
  then show ?case by simp
next
  case (Cons symbol rest)
  obtain res g' where f: "GetSymbolDetails lib g (envs i) symbol = (res, g')"
    by (cases "GetSymbolDetails lib g (envs i) symbol")
  show ?case
  proof (cases res)
    case (Returns x)
    show ?thesis
    proof (cases x)
      case (Inl err)
      let ?g = "gemini_log Warn ''Failed to fetch details for symbol'' g'"
      have "\<forall>r\<in>set (fetch_each lib envs (Suc i) rest ?g). \<exists>x. r = Returns x"
        using Cons.prems f Returns Inl by simp
      from Cons.IH[OF this, of acc] show ?thesis using f Returns Inl by simp
    next
      case (Inr d)
      have "\<forall>r\<in>set (fetch_each lib envs (Suc i) rest g'). \<exists>x. r = Returns x"
        using Cons.prems f Returns Inr by simp
      from Cons.IH[OF this, of "acc @ [d]"] show ?thesis using f Returns Inr by simp
    qed
  next
    case (Panics m)
    then show ?thesis using Cons.prems f by simp
  next
    case (Fatal m)
    then show ?thesis using Cons.prems f by simp
  qed
qed

lemma all_details_best_effort:
  assumes "ListSymbols slib g env = (Returns (Inr symbols), g1)"
    and "\<forall>r\<in>set (fetch_each dlib envs 0 symbols g1). \<exists>x. r = Returns x"
  shows "fst (GetAllSymbolDetails slib dlib g env envs)
         = Returns (Inr (succeeded_details (fetch_each dlib envs 0 symbols g1)))"
proof -
  from details_loop_eq[OF assms(2), of "[]"]
  obtain g2 where "details_loop dlib envs 0 symbols g1 []
      = (Returns (succeeded_details (fetch_each dlib envs 0 symbols g1)), g2)"
    by (cases "details_loop dlib envs 0 symbols g1 []") auto
  then show ?thesis using assms(1) by (simp add: GetAllSymbolDetails_def)
qed

lemma all_details_error_only_from_list:
  assumes "fst (GetAllSymbolDetails slib dlib g env envs) = Returns (Inl e)"
  shows "\<exists>err. fst (ListSymbols slib g env) = Returns (Inl err)
           \<and> e = Wrap ErrNetworkError ''failed to fetch symbols list'' err"
  using assms
  by (auto simp: GetAllSymbolDetails_def split: prod.splits outcome.splits sum.splits)

lemma succeeded_details_length: "length (succeeded_details rs) \<le> length rs"
  by (induction rs rule: succeeded_details.induct) auto

text \<open>
  Claim C9. \<open>GetAllSymbolDetails\<close> never fails as a whole because the fetch of one
  symbol fails: whenever the list of symbols has been fetched, it returns the details of
  exactly the symbols whose fetch succeeded, in the order of the list, and skips (and
  logs) the others; it returns an error only when the fetch of the list fails.

  The loop does this for every fetch that returns (\<open>all_details_best_effort\<close>). But a
  fetch whose context ends while it waits for a token of the public limiter does not
  return: \<open>Wait\<close> unlocks its mutex twice and the process dies, as in claim C1. Here the
  limiter holds one token, the fetch of the list takes it, and the deadline of the caller
  passes while the fetch of the first symbol waits.
\<close>

theorem C9_fetch_cancelled_is_fatal:
  "fst (ListSymbols demo_symbols_lib demo_public (demo_env ''[\"btcusd\",\"ethusd\"]''))
     = Returns (Inr [''btcusd'', ''ethusd'']) \<and>
   fst (GetAllSymbolDetails demo_symbols_lib demo_lib demo_public
          (demo_env ''[\"btcusd\",\"ethusd\"]'') demo_deadline)
     = Fatal ''sync: unlock of unlocked mutex''"
  by (simp add: GetAllSymbolDetails_def ListSymbols_def GetSymbolDetails_def GetWithType_def
        RequestWithType_def request_def demo_public_def demo_env_def demo_symbols_lib_def
        demo_lib_def demo_deadline_def SetRateLimit_def NewHTTPClient_def rateLimiter_def
        NewRateLimiter_def Wait_def Lock_def refill_def time_Sub_def Let_def maxInt64_def
        minInt64_def deferred_Unlock_def Unlock_def store_limiter_def send_def emit_def
        gemini_log_def StatusOK_def baseURLProd_def unlock_of_unlocked_def)

end
